theory Spec2Isabelle
  imports Complex_Main "HOL-Library.Sublist"
begin

section \<open>The reindex orchestrator of the upgrade assistant\<close>

text \<open>
  A shallow embedding of the reindex service and worker. Two revisions of the service are
  among the sources: \<^verbatim>\<open>part_007\<close> (the lease code \<^verbatim>\<open>acquireLock\<close>,
  \<^verbatim>\<open>releaseLock\<close>, \<^verbatim>\<open>updateReindexOp\<close>, \<^verbatim>\<open>getNewIndexName\<close> and a
  five-step state machine) and \<^verbatim>\<open>part_006\<close> (the worker, and the service with the
  ML steps, written against an \<^verbatim>\<open>actions\<close> object). Where both revisions define a
  function of the same name, the one of \<^verbatim>\<open>part_007\<close> carries the suffix \<open>_007\<close>.
\<close>

subsection \<open>Values of the JavaScript runtime\<close>

text \<open>
  Thrown values. \<^verbatim>\<open>Boom.notFound\<close>, \<^verbatim>\<open>Boom.conflict\<close>, \<^verbatim>\<open>Boom.badData\<close> and
  \<^verbatim>\<open>Boom.badImplementation\<close> build \<^verbatim>\<open>Error\<close> objects that carry the HTTP status
  404, 409, 422 and 500. \<open>NonError s\<close> is a rejection with a value that is not an
  \<^verbatim>\<open>Error\<close> (the test's mocks reject with plain strings), given by its
  \<^verbatim>\<open>toString()\<close>.
\<close>

datatype BoomKind = notFound | conflict | badData | badImplementation

datatype js_thrown =
    Boom BoomKind string
  | Error string
  | TypeError string
  | NonError string

fun instanceof_Error :: "js_thrown \<Rightarrow> bool" where
  "instanceof_Error (NonError s) = False"
| "instanceof_Error e = True"

fun error_name :: "js_thrown \<Rightarrow> string" where
  "error_name (TypeError m) = ''TypeError''"
| "error_name e = ''Error''"

fun error_message :: "js_thrown \<Rightarrow> string" where
  "error_message (Boom k m) = m"
| "error_message (Error m) = m"
| "error_message (TypeError m) = m"
| "error_message (NonError s) = s"

text \<open>
  \<^verbatim>\<open>e.stack\<close> of an \<^verbatim>\<open>Error\<close>: the runtime writes the header
  \<^verbatim>\<open>name: message\<close> (the name alone when the message is empty) and then the frames of
  the call stack, which the model receives as \<open>frames\<close>.
\<close>

definition error_stack :: "(js_thrown \<Rightarrow> string) \<Rightarrow> js_thrown \<Rightarrow> string" where
  "error_stack frames e =
     (if error_message e = [] then error_name e
      else error_name e @ '': '' @ error_message e) @ frames e"

text \<open>
  JavaScript numbers as far as the service computes them: the quotient
  \<^verbatim>\<open>created / total\<close> of two document counts. The quotient is kept exact (the
  rounding of the double is left out); a zero divisor gives \<^verbatim>\<open>NaN\<close> or
  \<^verbatim>\<open>Infinity\<close> as in JavaScript.
\<close>

datatype js_number = Num real | NaN | Infinity

definition js_div :: "nat \<Rightarrow> nat \<Rightarrow> js_number" where
  "js_div a b = (if b = 0 then (if a = 0 then NaN else Infinity) else Num (real a / real b))"

text \<open>The template literal \<^verbatim>\<open>${i}\<close> of a non-negative integer: its decimal digits.\<close>

definition digit_char :: "nat \<Rightarrow> char" where
  "digit_char d = ''0123456789'' ! d"

fun show_nat :: "nat \<Rightarrow> string" where
  "show_nat n = (if n < 10 then [digit_char n] else show_nat (n div 10) @ [digit_char (n mod 10)])"

declare show_nat.simps [simp del]

subsection \<open>Operation records\<close>

text \<open>
  Modelled from the spec: the enumerations \<^verbatim>\<open>ReindexStatus\<close> and \<^verbatim>\<open>ReindexStep\<close> of
  \<^verbatim>\<open>common/types\<close>, which is not among the sources; the steps are listed in their
  order.
\<close>

datatype ReindexStatus = inProgress | completed | failed | paused | cancelled

datatype ReindexStep =
    created | mlUpgradeModeSet | readonly | newIndexCreated
  | reindexStarted | reindexCompleted | aliasCreated | mlUpgradeModeUnset

fun step_index :: "ReindexStep \<Rightarrow> nat" where
  "step_index created = 0"
| "step_index mlUpgradeModeSet = 1"
| "step_index readonly = 2"
| "step_index newIndexCreated = 3"
| "step_index reindexStarted = 4"
| "step_index reindexCompleted = 5"
| "step_index aliasCreated = 6"
| "step_index mlUpgradeModeUnset = 7"

text \<open>
  Instants are milliseconds since the epoch. \<^verbatim>\<open>locked\<close> is stored as the string
  \<^verbatim>\<open>moment().format()\<close>, which has a resolution of one second, and read back with
  \<^verbatim>\<open>moment(locked)\<close>; the field holds the instant the stored string parses to, or
  \<open>None\<close> for \<^verbatim>\<open>null\<close>.
\<close>

type_synonym instant = int

definition moment_format :: "instant \<Rightarrow> instant" where
  "moment_format t = (t div 1000) * 1000"

definition LOCK_WINDOW :: int where
  "LOCK_WINDOW = 90 * 1000"

record ReindexOperation =
  indexName :: string
  newIndexName :: string
  status :: ReindexStatus
  lastCompletedStep :: ReindexStep
  locked :: "instant option"
  reindexTaskId :: "string option"
  reindexTaskPercComplete :: "js_number option"
  errorMessage :: "string option"

record ReindexSavedObject =
  so_id :: nat
  so_version :: nat
  attributes :: ReindexOperation

subsection \<open>The cluster and the store\<close>

text \<open>
  The requests the service sends through \<^verbatim>\<open>callCluster\<close>. An alias action is
  \<^verbatim>\<open>{add: {index, alias, ...properties}}\<close> or \<^verbatim>\<open>{remove_index: {index}}\<close>; the
  properties of an alias (filter, routing) are its entries as key and JSON text. The
  bodies of settings and mappings are JSON text.
\<close>

type_synonym json = string

type_synonym AliasProps = "(string \<times> json) list"

datatype AliasAction =
    add string string AliasProps
  | remove_index string

datatype cluster_call =
    IndicesExists string
  | IndicesPutSettings string bool
  | GetFlatSettings string
  | IndicesCreate string json
  | IndicesGetMapping string
  | Reindex string string "string list list"
  | TasksGet "string option"
  | DeleteTask "string option"
  | IndicesGetAlias string
  | IndicesUpdateAliases "AliasAction list"
  | MlSetUpgradeMode bool
  | NodesInfo

text \<open>
  The response of \<^verbatim>\<open>tasks.get\<close>: \<^verbatim>\<open>completed\<close>, \<^verbatim>\<open>task.status.created\<close>,
  \<^verbatim>\<open>task.status.total\<close>, and \<^verbatim>\<open>response.failures\<close>, each failure given by its
  \<^verbatim>\<open>JSON.stringify\<close> text; \<open>None\<close> when the response has no \<^verbatim>\<open>response\<close>
  member (as in the test's mock).
\<close>

record TaskResponse =
  tr_completed :: bool
  tr_created :: nat
  tr_total :: nat
  tr_failures :: "json list option"

text \<open>
  What the service receives from outside, as functions of the request: the cluster's
  answer to each request (\<open>Inl\<close> a rejection), the pure helpers of modules that are not
  among the sources (\<^verbatim>\<open>isMlIndex\<close>, \<^verbatim>\<open>transformFlatSettings\<close>,
  \<^verbatim>\<open>findBooleanFields\<close> applied to the mapping the cluster returns), and the stack frames
  the runtime attaches to an error. A node of \<^verbatim>\<open>/_nodes\<close> is its name and the major
  and minor number \<^verbatim>\<open>VERSION_REGEX\<close> extracts from its version, \<open>None\<close> when the
  expression does not match.
\<close>

record environment =
  indices_exists :: "string \<Rightarrow> js_thrown + bool"
  indices_putSettings :: "string \<Rightarrow> bool \<Rightarrow> js_thrown + bool"
  flat_settings :: "string \<Rightarrow> js_thrown + json option"
  transformFlatSettings :: "json \<Rightarrow> json"
  indices_create :: "string \<Rightarrow> json \<Rightarrow> js_thrown + bool"
  boolean_field_paths :: "string \<Rightarrow> js_thrown + string list list"
  reindex :: "string \<Rightarrow> string \<Rightarrow> string list list \<Rightarrow> js_thrown + string"
  tasks_get :: "string option \<Rightarrow> js_thrown + TaskResponse"
  delete_task :: "string option \<Rightarrow> js_thrown + string"
  indices_getAlias :: "string \<Rightarrow> js_thrown + (string \<times> AliasProps) list"
  indices_updateAliases :: "AliasAction list \<Rightarrow> js_thrown + bool"
  ml_set_upgrade_mode :: "bool \<Rightarrow> js_thrown + bool"
  nodes_info :: "js_thrown + (string \<times> (nat \<times> nat) option) list"
  isMlIndex :: "string \<Rightarrow> bool"
  stack_frames :: "js_thrown \<Rightarrow> string"

text \<open>
  The state the service works on: the saved objects of type \<^verbatim>\<open>reindex-operation\<close>,
  the ML counter document, the requests sent to the cluster so far, the clock read by
  \<^verbatim>\<open>moment()\<close>, and the next identifier the store hands out.
\<close>

record MlDoc =
  mlReindexCount :: int
  ml_locked :: "instant option"

record world =
  store :: "ReindexSavedObject list"
  mlDoc :: MlDoc
  calls :: "cluster_call list"
  clock :: instant
  next_id :: nat

text \<open>
  An asynchronous function: from a state to the value it resolves to, or the value it
  rejects with, and the state it leaves.
\<close>

type_synonym 'a prog = "world \<Rightarrow> (js_thrown + 'a) \<times> world"

definition resolve :: "'a \<Rightarrow> 'a prog" where
  "resolve x = (\<lambda>w. (Inr x, w))"

definition throw :: "js_thrown \<Rightarrow> 'a prog" where
  "throw e = (\<lambda>w. (Inl e, w))"

definition await :: "'a prog \<Rightarrow> ('a \<Rightarrow> 'b prog) \<Rightarrow> 'b prog" where
  "await m f = (\<lambda>w. case m w of (Inl e, w') \<Rightarrow> (Inl e, w') | (Inr x, w') \<Rightarrow> f x w')"

definition callCluster :: "cluster_call \<Rightarrow> (js_thrown + 'a) \<Rightarrow> 'a prog" where
  "callCluster c answer = (\<lambda>w. (answer, w\<lparr>calls := calls w @ [c]\<rparr>))"

definition try_catch :: "'a prog \<Rightarrow> (js_thrown \<Rightarrow> 'a prog) \<Rightarrow> 'a prog" where
  "try_catch m handler = (\<lambda>w. case m w of (Inl e, w') \<Rightarrow> handler e w' | (Inr x, w') \<Rightarrow> (Inr x, w'))"

text \<open>
  Modelled from the spec: the saved objects client (the persistence store), which is not
  among the sources. \<^verbatim>\<open>update\<close> is the optimistic-concurrency update of the spec: it
  fails with a conflict when the stored version is not the caller's, and otherwise stores
  the attributes under the next version and returns the stored object. \<^verbatim>\<open>find\<close> on
  the field \<^verbatim>\<open>indexName\<close> returns the operations of that index.
\<close>

definition store_get :: "ReindexSavedObject list \<Rightarrow> nat \<Rightarrow> ReindexSavedObject option" where
  "store_get objects i = find (\<lambda>so. so_id so = i) objects"

definition store_put :: "ReindexSavedObject \<Rightarrow> ReindexSavedObject list \<Rightarrow> ReindexSavedObject list" where
  "store_put so objects = map (\<lambda>x. if so_id x = so_id so then so else x) objects"

definition client_update :: "nat \<Rightarrow> ReindexOperation \<Rightarrow> nat \<Rightarrow> ReindexSavedObject prog" where
  "client_update i attrs v = (\<lambda>w.
     case store_get (store w) i of
       None \<Rightarrow> (Inl (Boom notFound ''Saved object not found''), w)
     | Some cur \<Rightarrow>
         if so_version cur \<noteq> v then (Inl (Boom conflict ''version conflict''), w)
         else
           let so = \<lparr> so_id = i, so_version = v + 1, attributes = attrs \<rparr>
           in (Inr so, w\<lparr>store := store_put so (store w)\<rparr>))"

definition client_delete :: "nat \<Rightarrow> unit prog" where
  "client_delete i = (\<lambda>w.
     case store_get (store w) i of
       None \<Rightarrow> (Inl (Boom notFound ''Saved object not found''), w)
     | Some cur \<Rightarrow> (Inr (), w\<lparr>store := filter (\<lambda>x. so_id x \<noteq> i) (store w)\<rparr>))"

definition client_create :: "ReindexOperation \<Rightarrow> ReindexSavedObject prog" where
  "client_create attrs = (\<lambda>w.
     let so = \<lparr> so_id = next_id w, so_version = 1, attributes = attrs \<rparr>
     in (Inr so, w\<lparr>store := store w @ [so], next_id := next_id w + 1\<rparr>))"

definition client_find_indexName :: "string \<Rightarrow> ReindexSavedObject list prog" where
  "client_find_indexName idx = (\<lambda>w.
     (Inr (filter (\<lambda>so. indexName (attributes so) = idx) (store w)), w))"

subsection \<open>The lease (\<^verbatim>\<open>part_007\<close>)\<close>

text \<open>
  \<^verbatim>\<open>updateReindexOp(reindexOp, attrs)\<close> writes
  \<^verbatim>\<open>{...reindexOp.attributes, locked: moment().format(), ...attrs}\<close>; the patch
  \<^verbatim>\<open>attrs\<close> is the record update it stands for.
\<close>

definition updateReindexOp ::
  "ReindexSavedObject \<Rightarrow> (ReindexOperation \<Rightarrow> ReindexOperation) \<Rightarrow> ReindexSavedObject prog" where
  "updateReindexOp reindexOp attrs = (\<lambda>w.
     client_update (so_id reindexOp)
       (attrs ((attributes reindexOp)\<lparr>locked := Some (moment_format (clock w))\<rparr>))
       (so_version reindexOp) w)"

text \<open>
  \<^verbatim>\<open>now.subtract(LOCK_WINDOW)\<close>: a moment is a mutable object, and \<^verbatim>\<open>subtract\<close>
  changes the moment it is called on and returns it. After the comparison of
  \<^verbatim>\<open>acquireLock\<close> the variable \<^verbatim>\<open>now\<close> therefore holds the instant 90 seconds
  before the attempt, and that is what \<^verbatim>\<open>now.format()\<close> writes into \<^verbatim>\<open>locked\<close>.
\<close>

definition moment_subtract :: "instant \<Rightarrow> int \<Rightarrow> instant" where
  "moment_subtract m d = m - d"

definition acquireLock :: "ReindexSavedObject \<Rightarrow> ReindexSavedObject prog" where
  "acquireLock reindexOp = (\<lambda>w.
     let now0 = clock w;
         (refused, now) =
           (case locked (attributes reindexOp) of
              None \<Rightarrow> (False, now0)
            | Some lockedTime \<Rightarrow>
                (let now1 = moment_subtract now0 LOCK_WINDOW in (now1 < lockedTime, now1)))
     in if refused
        then (Inl (Boom conflict
                ''Another Kibana process is currently modifying this reindex operation.''), w)
        else client_update (so_id reindexOp)
               ((attributes reindexOp)\<lparr>locked := Some (moment_format now)\<rparr>)
               (so_version reindexOp) w)"

definition releaseLock :: "ReindexSavedObject \<Rightarrow> ReindexSavedObject prog" where
  "releaseLock reindexOp =
     client_update (so_id reindexOp) ((attributes reindexOp)\<lparr>locked := None\<rparr>)
       (so_version reindexOp)"

text \<open>
  A lock is held at an instant when \<^verbatim>\<open>locked\<close> is set and younger than the lock
  window; the caller's object is the stored one when the store holds it under its id.
\<close>

definition lock_held :: "instant \<Rightarrow> ReindexSavedObject \<Rightarrow> bool" where
  "lock_held now reindexOp =
     (case locked (attributes reindexOp) of None \<Rightarrow> False | Some t \<Rightarrow> now - LOCK_WINDOW < t)"

definition stored :: "world \<Rightarrow> ReindexSavedObject \<Rightarrow> bool" where
  "stored w so = (store_get (store w) (so_id so) = Some so)"

text \<open>
  The instant \<open>acquireLock\<close> writes into \<^verbatim>\<open>locked\<close> when it takes the lock: the
  instant of the attempt when the operation was not locked, and the instant the
  subtraction left in \<^verbatim>\<open>now\<close> when it was.
\<close>

definition lock_stamp :: "instant \<Rightarrow> ReindexSavedObject \<Rightarrow> instant" where
  "lock_stamp now reindexOp =
     (case locked (attributes reindexOp) of
        None \<Rightarrow> moment_format now
      | Some t \<Rightarrow> moment_format (now - LOCK_WINDOW))"

subsection \<open>The actions that are not among the sources\<close>

text \<open>
  \<^verbatim>\<open>part_006\<close> calls \<^verbatim>\<open>actions.updateReindexOp\<close>, for which the model takes
  \<open>updateReindexOp\<close> of \<^verbatim>\<open>part_007\<close>, and the actions below, whose module
  (\<^verbatim>\<open>reindex_actions\<close>) is not among the sources.
\<close>

text \<open>
  Modelled from the spec: \<^verbatim>\<open>actions.runWhileLocked\<close>, which is missing. The lease
  discipline of the spec, which \<^verbatim>\<open>processNextStep\<close> of \<^verbatim>\<open>part_007\<close> has inline:
  stamp the lock (\<open>acquireLock\<close>; a refusal is not caught), perform the body, and
  always clear the lock on exit, on success on the object the body returned and on
  failure on the locked object, the body's error being thrown again.
\<close>

definition runWhileLocked ::
  "ReindexSavedObject \<Rightarrow> (ReindexSavedObject \<Rightarrow> ReindexSavedObject prog)
     \<Rightarrow> ReindexSavedObject prog" where
  "runWhileLocked reindexOp func =
     await (acquireLock reindexOp) (\<lambda>lockedOp w.
       case func lockedOp w of
         (Inr op', w') \<Rightarrow> releaseLock op' w'
       | (Inl e, w') \<Rightarrow> await (releaseLock lockedOp) (\<lambda>_. throw e) w')"

text \<open>
  Modelled from the spec: \<^verbatim>\<open>actions.runWhileMlLocked\<close>,
  \<^verbatim>\<open>actions.incrementMlReindexes\<close> and \<^verbatim>\<open>actions.decrementMlReindexes\<close>, which are
  missing. The ML counter document has a lock of the same semantics as an operation's:
  a lock younger than the lock window refuses the caller, otherwise the lock is taken, the
  body runs on the document, the document it returns is stored, and the lock is cleared on
  exit. The counter is incremented and decremented under that lock.
\<close>

definition ml_lock_held :: "world \<Rightarrow> bool" where
  "ml_lock_held w =
     (case ml_locked (mlDoc w) of None \<Rightarrow> False | Some t \<Rightarrow> clock w - LOCK_WINDOW < t)"

definition runWhileMlLocked :: "(MlDoc \<Rightarrow> MlDoc prog) \<Rightarrow> MlDoc prog" where
  "runWhileMlLocked func = (\<lambda>w.
     if ml_lock_held w
     then (Inl (Boom conflict ''Could not acquire lock for ML jobs''), w)
     else
       let w1 = w\<lparr>mlDoc := (mlDoc w)\<lparr>ml_locked := Some (moment_format (clock w))\<rparr>\<rparr>
       in (case func (mlDoc w1) w1 of
             (Inr doc, w2) \<Rightarrow>
               (Inr (doc\<lparr>ml_locked := None\<rparr>), w2\<lparr>mlDoc := doc\<lparr>ml_locked := None\<rparr>\<rparr>)
           | (Inl e, w2) \<Rightarrow> (Inl e, w2\<lparr>mlDoc := (mlDoc w2)\<lparr>ml_locked := None\<rparr>\<rparr>)))"

definition incrementMlReindexes :: "unit prog" where
  "incrementMlReindexes =
     await (runWhileMlLocked (\<lambda>doc. resolve (doc\<lparr>mlReindexCount := mlReindexCount doc + 1\<rparr>)))
       (\<lambda>_. resolve ())"

definition decrementMlReindexes :: "unit prog" where
  "decrementMlReindexes =
     await (runWhileMlLocked (\<lambda>doc. resolve (doc\<lparr>mlReindexCount := mlReindexCount doc - 1\<rparr>)))
       (\<lambda>_. resolve ())"

text \<open>
  Modelled from the spec: \<^verbatim>\<open>actions.cleanupChanges\<close>, which is missing. It reverses
  the write block on the source index; its errors are not propagated.
\<close>

definition cleanupChanges :: "environment \<Rightarrow> string \<Rightarrow> unit prog" where
  "cleanupChanges env idx = (\<lambda>w.
     case callCluster (IndicesPutSettings idx False) (indices_putSettings env idx False) w of
       (r, w') \<Rightarrow> (Inr (), w'))"

text \<open>
  \<^verbatim>\<open>actions.getFlatSettings\<close> resolves to \<^verbatim>\<open>null\<close> for an index that does not
  exist (the test's mock); \<^verbatim>\<open>actions.getBooleanFieldPaths\<close> resolves to the paths of
  the boolean fields of the mapping.
\<close>

definition getFlatSettings :: "environment \<Rightarrow> string \<Rightarrow> json option prog" where
  "getFlatSettings env idx = callCluster (GetFlatSettings idx) (flat_settings env idx)"

definition getBooleanFieldPaths :: "environment \<Rightarrow> string \<Rightarrow> string list list prog" where
  "getBooleanFieldPaths env idx = callCluster (IndicesGetMapping idx) (boolean_field_paths env idx)"

subsection \<open>Generating the name of the new index (\<^verbatim>\<open>part_007\<close>)\<close>

definition reindex_name :: "string \<Rightarrow> nat \<Rightarrow> string" where
  "reindex_name idx i = idx @ ''-reindex-'' @ show_nat i"

fun getNewIndexName_loop :: "environment \<Rightarrow> string \<Rightarrow> nat \<Rightarrow> nat list \<Rightarrow> string prog" where
  "getNewIndexName_loop env idx attempts [] =
     throw (Error (''Could not generate an indexName that does not already exist after ''
                   @ show_nat attempts @ '' attempts.''))"
| "getNewIndexName_loop env idx attempts (i # rest) =
     await (callCluster (IndicesExists (reindex_name idx i)) (indices_exists env (reindex_name idx i)))
       (\<lambda>ex. if \<not> ex then resolve (reindex_name idx i)
             else getNewIndexName_loop env idx attempts rest)"

definition getNewIndexName :: "environment \<Rightarrow> string \<Rightarrow> nat \<Rightarrow> string prog" where
  "getNewIndexName env idx attempts = getNewIndexName_loop env idx attempts [0..<attempts]"

text \<open>
  \<^verbatim>\<open>actions.createReindexOp\<close>, \<^verbatim>\<open>actions.deleteReindexOp\<close> and
  \<^verbatim>\<open>actions.findReindexOperations\<close> are missing; the model takes the code that
  \<^verbatim>\<open>createReindexOperation\<close> of \<^verbatim>\<open>part_007\<close> has in their place
  (\<^verbatim>\<open>client.create\<close> with the initial fields, \<^verbatim>\<open>client.delete\<close>,
  \<^verbatim>\<open>client.find\<close>).
\<close>

definition createReindexOp :: "environment \<Rightarrow> string \<Rightarrow> ReindexSavedObject prog" where
  "createReindexOp env idx =
     await (getNewIndexName env idx 100) (\<lambda>newName.
       client_create \<lparr> indexName = idx, newIndexName = newName, status = inProgress,
                       lastCompletedStep = created, locked = None, reindexTaskId = None,
                       reindexTaskPercComplete = None, errorMessage = None \<rparr>)"

definition deleteReindexOp :: "ReindexSavedObject \<Rightarrow> unit prog" where
  "deleteReindexOp reindexOp = client_delete (so_id reindexOp)"

definition findReindexOperations :: "string \<Rightarrow> ReindexSavedObject list prog" where
  "findReindexOperations idx = client_find_indexName idx"

subsection \<open>The steps of the state machine (\<^verbatim>\<open>part_006\<close>)\<close>

text \<open>
  \<^verbatim>\<open>JSON.stringify\<close> of an array of strings, which \<^verbatim>\<open>validateNodesMinimumVersion\<close>
  applies to the names of the outdated nodes: every string in double quotes, the double
  quote and the backslash escaped with a backslash, the control characters below
  \<^verbatim>\<open>0x20\<close> written with their short escape (b, t, n, f, r) or as a backslash,
  \<^verbatim>\<open>u00\<close> and two lower-case hexadecimal digits, every other character as it is;
  the elements are separated by commas.
\<close>

definition hex_digit :: "nat \<Rightarrow> char" where
  "hex_digit d = ''0123456789abcdef'' ! d"

definition json_escape :: "char \<Rightarrow> string" where
  "json_escape c =
     (if c = CHR 0x22 then [CHR 0x5C, CHR 0x22]
      else if c = CHR 0x5C then [CHR 0x5C, CHR 0x5C]
      else if c = CHR 0x08 then [CHR 0x5C, CHR ''b'']
      else if c = CHR 0x09 then [CHR 0x5C, CHR ''t'']
      else if c = CHR 0x0A then [CHR 0x5C, CHR ''n'']
      else if c = CHR 0x0C then [CHR 0x5C, CHR ''f'']
      else if c = CHR 0x0D then [CHR 0x5C, CHR ''r'']
      else if (of_char c :: nat) < 32
      then [CHR 0x5C, CHR ''u'', CHR ''0'', CHR ''0'',
            hex_digit ((of_char c :: nat) div 16), hex_digit ((of_char c :: nat) mod 16)]
      else [c])"

definition json_string :: "string \<Rightarrow> string" where
  "json_string s = [CHR 0x22] @ concat (map json_escape s) @ [CHR 0x22]"

fun join_comma :: "string list \<Rightarrow> string" where
  "join_comma [] = []"
| "join_comma [x] = x"
| "join_comma (x # y # rest) = x @ '','' @ join_comma (y # rest)"

definition stringify_names :: "string list \<Rightarrow> string" where
  "stringify_names ns = ''['' @ join_comma (map json_string ns) @ '']''"

definition validateNodesMinimumVersion :: "environment \<Rightarrow> nat \<Rightarrow> nat \<Rightarrow> unit prog" where
  "validateNodesMinimumVersion env minMajor minMinor =
     await (callCluster NodesInfo (nodes_info env)) (\<lambda>nodes.
       if list_ex (\<lambda>node. snd node = None) nodes
       then throw (TypeError ''Cannot read property '1' of null'')
       else
         let outDatedNodes =
               filter (\<lambda>node. case snd node of
                          None \<Rightarrow> False
                        | Some (major, minor) \<Rightarrow>
                            \<not> (major > minMajor \<or> (major = minMajor \<and> minor \<ge> minMinor)))
                      nodes
         in if length outDatedNodes > 0
            then throw (Error (''Some nodes are not on minimum version ('' @ show_nat minMajor
                   @ ''.'' @ show_nat minMinor @ ''.0)  required: ''
                   @ stringify_names (map fst outDatedNodes)))
            else resolve ())"

definition setMlUpgradeMode :: "environment \<Rightarrow> ReindexSavedObject \<Rightarrow> ReindexSavedObject prog" where
  "setMlUpgradeMode env reindexOp =
     (if \<not> isMlIndex env (indexName (attributes reindexOp))
      then updateReindexOp reindexOp (\<lambda>a. a\<lparr>lastCompletedStep := mlUpgradeModeSet\<rparr>)
      else
        await incrementMlReindexes (\<lambda>_.
        await (runWhileMlLocked (\<lambda>mlDoc.
                 await (validateNodesMinimumVersion env 6 7) (\<lambda>_.
                 await (callCluster (MlSetUpgradeMode True) (ml_set_upgrade_mode env True))
                   (\<lambda>acknowledged.
                      if \<not> acknowledged then throw (Error ''Could not stop ML jobs'')
                      else resolve mlDoc)))) (\<lambda>_.
        updateReindexOp reindexOp (\<lambda>a. a\<lparr>lastCompletedStep := mlUpgradeModeSet\<rparr>))))"

definition setReadonly :: "environment \<Rightarrow> ReindexSavedObject \<Rightarrow> ReindexSavedObject prog" where
  "setReadonly env reindexOp =
     (let idx = indexName (attributes reindexOp) in
      await (callCluster (IndicesPutSettings idx True) (indices_putSettings env idx True))
        (\<lambda>acknowledged.
           if \<not> acknowledged then throw (Error ''Index could not be set to readonly.'')
           else updateReindexOp reindexOp (\<lambda>a. a\<lparr>lastCompletedStep := readonly\<rparr>)))"

definition createNewIndex :: "environment \<Rightarrow> ReindexSavedObject \<Rightarrow> ReindexSavedObject prog" where
  "createNewIndex env reindexOp =
     (let idx = indexName (attributes reindexOp);
          newName = newIndexName (attributes reindexOp) in
      await (getFlatSettings env idx) (\<lambda>flatSettings.
        case flatSettings of
          None \<Rightarrow> throw (Boom notFound (''Index '' @ idx @ '' does not exist.''))
        | Some flat \<Rightarrow>
            await (callCluster (IndicesCreate newName (transformFlatSettings env flat))
                     (indices_create env newName (transformFlatSettings env flat)))
              (\<lambda>acknowledged.
                 if \<not> acknowledged
                 then throw (Boom badImplementation (''Index could not be created: '' @ newName))
                 else updateReindexOp reindexOp (\<lambda>a. a\<lparr>lastCompletedStep := newIndexCreated\<rparr>))))"

text \<open>
  The request of \<^verbatim>\<open>startReindexing\<close> carries the script exactly when the list of
  boolean field paths is not empty; the script's parameter is that list, so the request is
  logged with the list (empty: no script).
\<close>

definition startReindexing :: "environment \<Rightarrow> ReindexSavedObject \<Rightarrow> ReindexSavedObject prog" where
  "startReindexing env reindexOp =
     (let idx = indexName (attributes reindexOp);
          newName = newIndexName (attributes reindexOp) in
      await (getBooleanFieldPaths env idx) (\<lambda>booleanFieldPaths.
      await (callCluster (Reindex idx newName booleanFieldPaths)
               (reindex env idx newName booleanFieldPaths)) (\<lambda>task.
      updateReindexOp reindexOp
        (\<lambda>a. a\<lparr>lastCompletedStep := reindexStarted, reindexTaskId := Some task,
                reindexTaskPercComplete := Some (Num 0)\<rparr>))))"

text \<open>
  The task id of the requests is \<^verbatim>\<open>reindexOp.attributes.reindexTaskId\<close>, which may
  be \<^verbatim>\<open>null\<close>; the template literal prints a \<^verbatim>\<open>null\<close> id as such.
  \<^verbatim>\<open>failures[0]\<close> of an empty list is \<^verbatim>\<open>undefined\<close>, which the template
  literal prints as such; a response with no \<^verbatim>\<open>response\<close> member makes the property
  access throw.
\<close>

definition taskId_text :: "string option \<Rightarrow> string" where
  "taskId_text t = (case t of None \<Rightarrow> ''null'' | Some i \<Rightarrow> i)"

definition updateReindexStatus :: "environment \<Rightarrow> ReindexSavedObject \<Rightarrow> ReindexSavedObject prog" where
  "updateReindexStatus env reindexOp =
     (let taskId = reindexTaskId (attributes reindexOp) in
      await (callCluster (TasksGet taskId) (tasks_get env taskId)) (\<lambda>taskResponse.
        if tr_completed taskResponse then
          (if tr_created taskResponse < tr_total taskResponse then
             (case tr_failures taskResponse of
                None \<Rightarrow> throw (TypeError ''Cannot read property 'failures' of undefined'')
              | Some failures \<Rightarrow>
                  (let failureExample = (case failures of [] \<Rightarrow> ''undefined'' | f # _ \<Rightarrow> f)
                   in throw (Boom badData
                        (''Reindexing failed with failures like: '' @ failureExample))))
           else
             await (callCluster (DeleteTask taskId) (delete_task env taskId)) (\<lambda>result.
               if result \<noteq> ''deleted''
               then throw (Boom badImplementation
                      (''Could not delete reindexing task '' @ taskId_text taskId))
               else updateReindexOp reindexOp
                      (\<lambda>a. a\<lparr>lastCompletedStep := reindexCompleted,
                              reindexTaskPercComplete := Some (Num 1)\<rparr>)))
        else
          (let perc = js_div (tr_created taskResponse) (tr_total taskResponse)
           in updateReindexOp reindexOp (\<lambda>a. a\<lparr>reindexTaskPercComplete := Some perc\<rparr>))))"

text \<open>
  The aliases of the source index are the entries of
  \<^verbatim>\<open>response[indexName].aliases\<close> in the order of \<^verbatim>\<open>Object.keys\<close>. The
  properties of an alias are those the cluster reports for it (filter, routing), none of
  which is named \<^verbatim>\<open>index\<close> or \<^verbatim>\<open>alias\<close>, so the spread adds them to the two
  members written before it.
\<close>

definition switchAlias :: "environment \<Rightarrow> ReindexSavedObject \<Rightarrow> ReindexSavedObject prog" where
  "switchAlias env reindexOp =
     (let idx = indexName (attributes reindexOp);
          newName = newIndexName (attributes reindexOp) in
      await (callCluster (IndicesGetAlias idx) (indices_getAlias env idx)) (\<lambda>existingAliases.
        let extraAlises = map (\<lambda>(aliasName, props). add newName aliasName props) existingAliases;
            actions = [add newName idx [], remove_index idx] @ extraAlises
        in await (callCluster (IndicesUpdateAliases actions) (indices_updateAliases env actions))
             (\<lambda>acknowledged.
                if \<not> acknowledged
                then throw (Boom badImplementation ''Index aliases could not be created.'')
                else updateReindexOp reindexOp
                       (\<lambda>a. a\<lparr>lastCompletedStep := aliasCreated,
                               status := (if isMlIndex env idx then inProgress else completed)\<rparr>))))"

definition unsetMlUpgradeMode :: "environment \<Rightarrow> ReindexSavedObject \<Rightarrow> ReindexSavedObject prog" where
  "unsetMlUpgradeMode env reindexOp =
     (if \<not> isMlIndex env (indexName (attributes reindexOp))
      then updateReindexOp reindexOp
             (\<lambda>a. a\<lparr>lastCompletedStep := mlUpgradeModeUnset, status := completed\<rparr>)
      else
        await decrementMlReindexes (\<lambda>_.
        await (runWhileMlLocked (\<lambda>mlDoc.
                 if mlReindexCount mlDoc = 0
                 then await (callCluster (MlSetUpgradeMode False) (ml_set_upgrade_mode env False))
                        (\<lambda>acknowledged.
                           if \<not> acknowledged then throw (Error ''Could not resume ML jobs'')
                           else resolve mlDoc)
                 else resolve mlDoc)) (\<lambda>_.
        updateReindexOp reindexOp
          (\<lambda>a. a\<lparr>lastCompletedStep := mlUpgradeModeUnset, status := completed\<rparr>))))"

subsection \<open>The service (\<^verbatim>\<open>part_006\<close>)\<close>

definition createReindexOperation :: "environment \<Rightarrow> string \<Rightarrow> ReindexSavedObject prog" where
  "createReindexOperation env idx =
     await (callCluster (IndicesExists idx) (indices_exists env idx)) (\<lambda>indexExists.
       if \<not> indexExists
       then throw (Boom notFound (''Index '' @ idx @ '' does not exist in this cluster.''))
       else
         await (findReindexOperations idx) (\<lambda>existingReindexOps.
           case existingReindexOps of
             [] \<Rightarrow> createReindexOp env idx
           | existingOp # _ \<Rightarrow>
               if status (attributes existingOp) = failed
               then await (deleteReindexOp existingOp) (\<lambda>_. createReindexOp env idx)
               else throw (Boom badImplementation
                      (''A reindex operation already in-progress for '' @ idx))))"

definition findReindexOperation :: "string \<Rightarrow> ReindexSavedObject option prog" where
  "findReindexOperation idx =
     await (findReindexOperations idx) (\<lambda>findResponse.
       if length findResponse = 0 then resolve None
       else if length findResponse > 1
       then throw (Boom badImplementation (''More than one reindex operation found for '' @ idx))
       else resolve (Some (hd findResponse)))"

definition pauseReindexOperation :: "string \<Rightarrow> ReindexSavedObject prog" where
  "pauseReindexOperation idx =
     await (findReindexOperation idx) (\<lambda>found.
       case found of
         None \<Rightarrow> throw (Error (''No reindex operation found for index '' @ idx))
       | Some reindexOp \<Rightarrow>
           runWhileLocked reindexOp (\<lambda>lockedOp.
             if status (attributes lockedOp) \<noteq> inProgress
             then throw (Error ''Reindex operation must be inProgress in order to be paused.'')
             else updateReindexOp lockedOp (\<lambda>a. a\<lparr>status := paused\<rparr>)))"

definition resumeReindexOperation :: "string \<Rightarrow> ReindexSavedObject prog" where
  "resumeReindexOperation idx =
     await (findReindexOperation idx) (\<lambda>found.
       case found of
         None \<Rightarrow> throw (Error (''No reindex operation found for index '' @ idx))
       | Some reindexOp \<Rightarrow>
           runWhileLocked reindexOp (\<lambda>lockedOp.
             if status (attributes lockedOp) \<noteq> paused
             then throw (Error ''Reindex operation must be paused in order to be resumed.'')
             else updateReindexOp lockedOp (\<lambda>a. a\<lparr>status := inProgress\<rparr>)))"

text \<open>The value written into \<^verbatim>\<open>errorMessage\<close>:
  \<^verbatim>\<open>e instanceof Error ? e.stack : e.toString()\<close>.\<close>

definition errorMessage_of :: "environment \<Rightarrow> js_thrown \<Rightarrow> string" where
  "errorMessage_of env e =
     (if instanceof_Error e then error_stack (stack_frames env) e else error_message e)"

definition processNextStep_switch ::
  "environment \<Rightarrow> ReindexSavedObject \<Rightarrow> ReindexSavedObject prog" where
  "processNextStep_switch env lockedReindexOp =
     (case lastCompletedStep (attributes lockedReindexOp) of
        created \<Rightarrow> setMlUpgradeMode env lockedReindexOp
      | mlUpgradeModeSet \<Rightarrow> setReadonly env lockedReindexOp
      | readonly \<Rightarrow> createNewIndex env lockedReindexOp
      | newIndexCreated \<Rightarrow> startReindexing env lockedReindexOp
      | reindexStarted \<Rightarrow> updateReindexStatus env lockedReindexOp
      | reindexCompleted \<Rightarrow> switchAlias env lockedReindexOp
      | aliasCreated \<Rightarrow> unsetMlUpgradeMode env lockedReindexOp
      | mlUpgradeModeUnset \<Rightarrow> resolve lockedReindexOp)"

definition processNextStep_body ::
  "environment \<Rightarrow> ReindexSavedObject \<Rightarrow> ReindexSavedObject prog" where
  "processNextStep_body env lockedReindexOp =
     try_catch (processNextStep_switch env lockedReindexOp) (\<lambda>e.
       await (updateReindexOp lockedReindexOp
                (\<lambda>a. a\<lparr>status := failed, errorMessage := Some (errorMessage_of env e)\<rparr>))
         (\<lambda>failedOp.
            await (cleanupChanges env (indexName (attributes failedOp))) (\<lambda>_.
            resolve failedOp)))"

definition processNextStep :: "environment \<Rightarrow> ReindexSavedObject \<Rightarrow> ReindexSavedObject prog" where
  "processNextStep env reindexOp = runWhileLocked reindexOp (processNextStep_body env)"

subsection \<open>The state machine of \<^verbatim>\<open>part_007\<close>\<close>

text \<open>
  \<^verbatim>\<open>setReadonly\<close>, \<^verbatim>\<open>startReindexing\<close> and \<^verbatim>\<open>updateReindexStatus\<close> of
  \<^verbatim>\<open>part_007\<close> are, line by line, those of \<^verbatim>\<open>part_006\<close> with the inline
  \<^verbatim>\<open>updateReindexOp\<close> and \<^verbatim>\<open>getBooleanFieldPaths\<close>. \<^verbatim>\<open>getFlatSettings\<close> throws
  for a missing index, \<^verbatim>\<open>switchAlias\<close> sends two actions and always completes the
  operation, and the lock is taken and released by \<^verbatim>\<open>processNextStep\<close> itself.
\<close>

definition getFlatSettings_007 :: "environment \<Rightarrow> string \<Rightarrow> json prog" where
  "getFlatSettings_007 env idx =
     await (callCluster (GetFlatSettings idx) (flat_settings env idx)) (\<lambda>flatSettings.
       case flatSettings of
         None \<Rightarrow> throw (Boom notFound (''Index '' @ idx @ '' does not exist.''))
       | Some flat \<Rightarrow> resolve flat)"

definition createNewIndex_007 :: "environment \<Rightarrow> ReindexSavedObject \<Rightarrow> ReindexSavedObject prog" where
  "createNewIndex_007 env reindexOp =
     (let idx = indexName (attributes reindexOp);
          newName = newIndexName (attributes reindexOp) in
      await (getFlatSettings_007 env idx) (\<lambda>flat.
        await (callCluster (IndicesCreate newName (transformFlatSettings env flat))
                 (indices_create env newName (transformFlatSettings env flat)))
          (\<lambda>acknowledged.
             if \<not> acknowledged
             then throw (Boom badImplementation (''Index could not be created: '' @ newName))
             else updateReindexOp reindexOp (\<lambda>a. a\<lparr>lastCompletedStep := newIndexCreated\<rparr>))))"

definition switchAlias_007 :: "environment \<Rightarrow> ReindexSavedObject \<Rightarrow> ReindexSavedObject prog" where
  "switchAlias_007 env reindexOp =
     (let idx = indexName (attributes reindexOp);
          newName = newIndexName (attributes reindexOp);
          actions = [add newName idx [], remove_index idx] in
      await (callCluster (IndicesUpdateAliases actions) (indices_updateAliases env actions))
        (\<lambda>acknowledged.
           if \<not> acknowledged
           then throw (Boom badImplementation ''Index aliases could not be created.'')
           else updateReindexOp reindexOp
                  (\<lambda>a. a\<lparr>lastCompletedStep := aliasCreated, status := completed\<rparr>)))"

definition processNextStep_switch_007 ::
  "environment \<Rightarrow> ReindexSavedObject \<Rightarrow> ReindexSavedObject prog" where
  "processNextStep_switch_007 env reindexOp =
     (case lastCompletedStep (attributes reindexOp) of
        created \<Rightarrow> setReadonly env reindexOp
      | readonly \<Rightarrow> createNewIndex_007 env reindexOp
      | newIndexCreated \<Rightarrow> startReindexing env reindexOp
      | reindexStarted \<Rightarrow> updateReindexStatus env reindexOp
      | reindexCompleted \<Rightarrow> switchAlias_007 env reindexOp
      | _ \<Rightarrow> resolve reindexOp)"

text \<open>
  \<^verbatim>\<open>try { ... } catch (e) { ... } finally { reindexOp = await releaseLock(reindexOp) }\<close>:
  the variable \<^verbatim>\<open>reindexOp\<close> holds the step's result when the step returned, the
  failed operation when the handler's update returned, and the locked operation when the
  handler's update threw (its error is thrown again after the release).
\<close>

definition processNextStep_007 ::
  "environment \<Rightarrow> ReindexSavedObject \<Rightarrow> ReindexSavedObject prog" where
  "processNextStep_007 env reindexOp =
     await (acquireLock reindexOp) (\<lambda>lockedOp w1.
       case processNextStep_switch_007 env lockedOp w1 of
         (Inr stepped, w2) \<Rightarrow> releaseLock stepped w2
       | (Inl e, w2) \<Rightarrow>
           (case updateReindexOp lockedOp
                   (\<lambda>a. a\<lparr>status := failed, errorMessage := Some (errorMessage_of env e)\<rparr>) w2 of
              (Inr failedOp, w3) \<Rightarrow> releaseLock failedOp w3
            | (Inl e', w3) \<Rightarrow> await (releaseLock lockedOp) (\<lambda>_. throw e') w3))"

subsection \<open>The worker's constructor (\<^verbatim>\<open>part_006\<close>)\<close>

text \<open>
  The fields of a worker, and the static field \<^verbatim>\<open>ReindexWorker.workerSingleton\<close> of the
  process. The arguments of the constructor (the client, \<^verbatim>\<open>callWithInternalUser\<close> and
  the logger) are handles.
\<close>

record ReindexWorker =
  continuePolling :: bool
  updateOperationLoopRunning :: bool
  inProgressOps :: "ReindexSavedObject list"
  worker_client :: nat
  worker_callWithInternalUser :: nat
  worker_log :: nat

record process =
  workerSingleton :: "ReindexWorker option"

definition ReindexWorker_constructor ::
  "nat \<Rightarrow> nat \<Rightarrow> nat \<Rightarrow> process \<Rightarrow> (js_thrown + ReindexWorker) \<times> process" where
  "ReindexWorker_constructor client callWithInternalUser logger p =
     (if workerSingleton p \<noteq> None
      then (Inl (Error ''More than one ReindexWorker cannot be created.''), p)
      else
        let this = \<lparr> continuePolling = False, updateOperationLoopRunning = False,
                     inProgressOps = [], worker_client = client,
                     worker_callWithInternalUser = callWithInternalUser, worker_log = logger \<rparr>
        in (Inr this, p\<lparr>workerSingleton := Some this\<rparr>))"

text \<open>A sequence of constructor calls, each on the state the one before left.\<close>

fun construct_all ::
  "(nat \<times> nat \<times> nat) list \<Rightarrow> process \<Rightarrow> (js_thrown + ReindexWorker) list \<times> process" where
  "construct_all [] p = ([], p)"
| "construct_all ((c, u, l) # rest) p =
     (case ReindexWorker_constructor c u l p of
        (r, p') \<Rightarrow> (case construct_all rest p' of (rs, p'') \<Rightarrow> (r # rs, p'')))"

subsection \<open>A concrete environment and state\<close>

text \<open>
  An environment in the manner of the test's mocks: the index \<^verbatim>\<open>myIndex\<close> and the
  index \<^verbatim>\<open>myIndex-reindex-0\<close> exist, every request is acknowledged, the task is at
  10 of 100 documents, and the source index has a plain and a filtered alias.
\<close>

definition mock_env :: environment where
  "mock_env =
     \<lparr> indices_exists = (\<lambda>n. Inr (n = ''myIndex'' \<or> n = ''myIndex-reindex-0'')),
       indices_putSettings = (\<lambda>n b. Inr True),
       flat_settings = (\<lambda>n. Inr (Some ''{}'')),
       transformFlatSettings = (\<lambda>j. j),
       indices_create = (\<lambda>n b. Inr True),
       boolean_field_paths = (\<lambda>n. Inr []),
       reindex = (\<lambda>s d ps. Inr ''xyz''),
       tasks_get = (\<lambda>t. Inr \<lparr> tr_completed = False, tr_created = 10, tr_total = 100,
                               tr_failures = None \<rparr>),
       delete_task = (\<lambda>t. Inr ''deleted''),
       indices_getAlias = (\<lambda>n. Inr [(''myAlias'', []), (''myFilteredAlias'', [(''filter'', ''{}'')])]),
       indices_updateAliases = (\<lambda>as. Inr True),
       ml_set_upgrade_mode = (\<lambda>b. Inr True),
       nodes_info = Inr [(''node1'', Some (6, 7))],
       isMlIndex = (\<lambda>n. take 4 n = ''.ml-''),
       stack_frames = (\<lambda>e. '' at processNextStep'') \<rparr>"

definition mock_world :: world where
  "mock_world = \<lparr> store = [], mlDoc = \<lparr> mlReindexCount = 0, ml_locked = None \<rparr>,
                  calls = [], clock = 1000000, next_id = 1 \<rparr>"

text \<open>
  An operation on \<^verbatim>\<open>myIndex\<close> as the test builds it, the same operation at a given
  step, and the state whose store holds a given operation, with one ML reindex in flight.
\<close>

definition mock_op :: ReindexSavedObject where
  "mock_op =
     \<lparr> so_id = 1, so_version = 1,
       attributes = \<lparr> indexName = ''myIndex'', newIndexName = ''myIndex-reindex-0'',
                      status = inProgress, lastCompletedStep = created, locked = None,
                      reindexTaskId = Some ''xyz'', reindexTaskPercComplete = None,
                      errorMessage = None \<rparr> \<rparr>"

definition at_step :: "ReindexStep \<Rightarrow> ReindexSavedObject" where
  "at_step s = mock_op\<lparr>attributes := (attributes mock_op)\<lparr>lastCompletedStep := s\<rparr>\<rparr>"

definition world_with :: "ReindexSavedObject \<Rightarrow> world" where
  "world_with so = \<lparr> store = [so], mlDoc = \<lparr> mlReindexCount = 1, ml_locked = None \<rparr>,
                      calls = [], clock = 1000000, next_id = 2 \<rparr>"

text \<open>
  An operation whose lock was taken at second 100, seen at second 200: the lock is 100
  seconds old and so abandoned.
\<close>

definition stale_op :: ReindexSavedObject where
  "stale_op = mock_op\<lparr>attributes := (attributes mock_op)\<lparr>locked := Some 100000\<rparr>\<rparr>"

definition stale_world :: world where
  "stale_world = (world_with stale_op)\<lparr>clock := 200000\<rparr>"

text \<open>An operation has an error message when \<^verbatim>\<open>errorMessage\<close> is neither
  \<^verbatim>\<open>null\<close> nor the empty string.\<close>

definition has_errorMessage :: "ReindexOperation \<Rightarrow> bool" where
  "has_errorMessage a = (case errorMessage a of None \<Rightarrow> False | Some m \<Rightarrow> m \<noteq> [])"

text \<open>
  The operation on the ML index \<^verbatim>\<open>.ml-anomalies\<close> of the test, an operation that has
  failed, and the failure \<^verbatim>\<open>{"cause":"x"}\<close> of a task response.
\<close>

definition ml_op :: "ReindexStep \<Rightarrow> ReindexSavedObject" where
  "ml_op s = mock_op\<lparr>attributes := (attributes mock_op)\<lparr>indexName := ''.ml-anomalies'',
                                                          lastCompletedStep := s\<rparr>\<rparr>"

definition failed_op :: ReindexSavedObject where
  "failed_op = mock_op\<lparr>attributes := (attributes mock_op)\<lparr>status := failed,
                                                             errorMessage := Some ''Error: blah!''\<rparr>\<rparr>"

definition failure_x :: json where
  "failure_x = ''{'' @ [CHR 0x22] @ ''cause'' @ [CHR 0x22] @ '':'' @ [CHR 0x22] @ ''x''
               @ [CHR 0x22] @ ''}''"

text \<open>
  A second operation on \<^verbatim>\<open>myIndex\<close>, in progress, and the state whose store holds
  the failed operation and then this one; an environment in which every index name
  exists; and an environment whose settings request is rejected with the empty string, a
  value that is not an \<^verbatim>\<open>Error\<close>.
\<close>

definition in_progress_op :: ReindexSavedObject where
  "in_progress_op = mock_op\<lparr>so_id := 2\<rparr>"

definition two_ops_world :: world where
  "two_ops_world = \<lparr> store = [failed_op, in_progress_op],
                     mlDoc = \<lparr> mlReindexCount = 1, ml_locked = None \<rparr>,
                     calls = [], clock = 1000000, next_id = 3 \<rparr>"

definition full_env :: environment where
  "full_env = mock_env\<lparr>indices_exists := (\<lambda>n. Inr True)\<rparr>"



section \<open>Properties\<close>

lemma await_Inr: "m w = (Inr x, w') \<Longrightarrow> await m f w = f x w'"
  by (simp add: await_def)

lemma await_Inl: "m w = (Inl e, w') \<Longrightarrow> await m f w = (Inl e, w')"
  by (simp add: await_def)


subsection \<open>The store and the lease\<close>

lemma store_get_put:
  "store_get (store_put so xs) i =
     (if i = so_id so \<and> store_get xs i \<noteq> None then Some so else store_get xs i)"
  by (induction xs) (auto simp: store_get_def store_put_def)

lemma client_update_ok:
  "map_option so_version (store_get (store w) i) = Some v \<Longrightarrow>
   client_update i attrs v w =
     (Inr \<lparr> so_id = i, so_version = v + 1, attributes = attrs \<rparr>,
      w\<lparr>store := store_put \<lparr> so_id = i, so_version = v + 1, attributes = attrs \<rparr> (store w)\<rparr>)"
  by (auto simp: client_update_def Let_def split: option.splits)

lemma client_update_stored:
  assumes "stored w so"
  shows "client_update (so_id so) attrs (so_version so) w =
     (Inr \<lparr> so_id = so_id so, so_version = so_version so + 1, attributes = attrs \<rparr>,
      w\<lparr>store := store_put \<lparr> so_id = so_id so, so_version = so_version so + 1, attributes = attrs \<rparr> (store w)\<rparr>)"
  using assms by (intro client_update_ok) (simp add: stored_def)

lemma stored_after_update:
  assumes "stored w so"
  shows "stored (w\<lparr>store := store_put \<lparr> so_id = so_id so, so_version = v, attributes = attrs \<rparr> (store w)\<rparr>)
           \<lparr> so_id = so_id so, so_version = v, attributes = attrs \<rparr>"
  using assms by (simp add: stored_def store_get_put)

lemma acquireLock_held:
  "lock_held (clock w) reindexOp \<Longrightarrow>
   acquireLock reindexOp w =
     (Inl (Boom conflict ''Another Kibana process is currently modifying this reindex operation.''), w)"
  by (auto simp: acquireLock_def lock_held_def moment_subtract_def Let_def split: option.splits)

lemma acquireLock_free:
  assumes "stored w reindexOp" "\<not> lock_held (clock w) reindexOp"
  shows "acquireLock reindexOp w =
     (Inr \<lparr> so_id = so_id reindexOp, so_version = so_version reindexOp + 1,
            attributes = (attributes reindexOp)\<lparr>locked := Some (lock_stamp (clock w) reindexOp)\<rparr> \<rparr>,
      w\<lparr>store := store_put \<lparr> so_id = so_id reindexOp, so_version = so_version reindexOp + 1,
            attributes = (attributes reindexOp)\<lparr>locked := Some (lock_stamp (clock w) reindexOp)\<rparr> \<rparr> (store w)\<rparr>)"
  using assms
  by (auto simp: acquireLock_def lock_held_def lock_stamp_def moment_subtract_def Let_def
        client_update_stored split: option.splits)

lemma releaseLock_stored:
  assumes "stored w so"
  shows "releaseLock so w =
     (Inr \<lparr> so_id = so_id so, so_version = so_version so + 1, attributes = (attributes so)\<lparr>locked := None\<rparr> \<rparr>,
      w\<lparr>store := store_put \<lparr> so_id = so_id so, so_version = so_version so + 1,
             attributes = (attributes so)\<lparr>locked := None\<rparr> \<rparr> (store w)\<rparr>)"
  using assms by (simp add: releaseLock_def client_update_stored)

lemma updateReindexOp_stored:
  assumes "stored w so"
  shows "updateReindexOp so f w =
     (Inr \<lparr> so_id = so_id so, so_version = so_version so + 1,
            attributes = f ((attributes so)\<lparr>locked := Some (moment_format (clock w))\<rparr>) \<rparr>,
      w\<lparr>store := store_put \<lparr> so_id = so_id so, so_version = so_version so + 1,
             attributes = f ((attributes so)\<lparr>locked := Some (moment_format (clock w))\<rparr>) \<rparr> (store w)\<rparr>)"
  using assms by (simp add: updateReindexOp_def client_update_stored)

lemma client_update_result:
  "client_update i attrs v w = (Inr so, w') \<Longrightarrow>
     stored w' so \<and> so_id so = i \<and> attributes so = attrs \<and> calls w' = calls w \<and>
     mlDoc w' = mlDoc w \<and> clock w' = clock w \<and> store_get (store w) i \<noteq> None"
  by (auto simp: client_update_def Let_def stored_def store_get_put split: option.splits if_splits)

lemma client_update_error:
  "client_update i attrs v w = (Inl e, w') \<Longrightarrow> w' = w"
  by (auto simp: client_update_def Let_def split: option.splits if_splits)

lemma acquireLock_result:
  "acquireLock so w = (Inr lockedOp, w1) \<Longrightarrow>
     stored w1 lockedOp \<and> so_id lockedOp = so_id so \<and>
     attributes lockedOp = (attributes so)\<lparr>locked := Some (lock_stamp (clock w) so)\<rparr> \<and>
     calls w1 = calls w \<and> mlDoc w1 = mlDoc w \<and> clock w1 = clock w \<and> \<not> lock_held (clock w) so"
  by (auto simp: acquireLock_def Let_def lock_stamp_def lock_held_def moment_subtract_def
           split: option.splits if_splits dest!: client_update_result)

lemma acquireLock_error: "acquireLock so w = (Inl e, w') \<Longrightarrow> w' = w"
  by (auto simp: acquireLock_def Let_def split: option.splits if_splits prod.splits
           dest: client_update_error)

lemma releaseLock_outcome:
  assumes "stored w so"
  shows "\<exists>op' w'. releaseLock so w = (Inr op', w') \<and> stored w' op' \<and> so_id op' = so_id so \<and>
           attributes op' = (attributes so)\<lparr>locked := None\<rparr> \<and>
           calls w' = calls w \<and> mlDoc w' = mlDoc w \<and> clock w' = clock w"
  using assms
  by (simp add: releaseLock_stored) (simp add: stored_def store_get_put)

lemma updateReindexOp_outcome:
  assumes "stored w so"
  shows "\<exists>op' w'. updateReindexOp so f w = (Inr op', w') \<and> stored w' op' \<and> so_id op' = so_id so \<and>
           attributes op' = f ((attributes so)\<lparr>locked := Some (moment_format (clock w))\<rparr>) \<and>
           calls w' = calls w \<and> mlDoc w' = mlDoc w \<and> clock w' = clock w"
  using assms
  by (simp add: updateReindexOp_stored) (simp add: stored_def store_get_put)

named_theorems step_defs

lemmas [step_defs] = Let_def await_def callCluster_def throw_def resolve_def updateReindexOp_def
  client_update_def stored_def store_get_put

lemma setReadonly_outcome:
  assumes "stored w so"
  shows "case setReadonly env so w of
           (Inl e, w') \<Rightarrow> store w' = store w \<and> clock w' = clock w
         | (Inr op', w') \<Rightarrow> stored w' op' \<and> so_id op' = so_id so \<and> clock w' = clock w \<and>
             attributes op' = (attributes so)\<lparr>locked := Some (moment_format (clock w)),
                                 lastCompletedStep := readonly\<rparr>"
  using assms
  by (auto simp: setReadonly_def step_defs split: sum.splits prod.splits)

lemma createNewIndex_outcome:
  assumes "stored w so"
  shows "case createNewIndex env so w of
           (Inl e, w') \<Rightarrow> store w' = store w \<and> clock w' = clock w
         | (Inr op', w') \<Rightarrow> stored w' op' \<and> so_id op' = so_id so \<and> clock w' = clock w \<and>
             attributes op' = (attributes so)\<lparr>locked := Some (moment_format (clock w)),
                                 lastCompletedStep := newIndexCreated\<rparr>"
  using assms
  by (auto simp: createNewIndex_def getFlatSettings_def step_defs
           split: sum.splits prod.splits option.splits)

lemma createNewIndex_007_outcome:
  assumes "stored w so"
  shows "case createNewIndex_007 env so w of
           (Inl e, w') \<Rightarrow> store w' = store w \<and> clock w' = clock w
         | (Inr op', w') \<Rightarrow> stored w' op' \<and> so_id op' = so_id so \<and> clock w' = clock w \<and>
             attributes op' = (attributes so)\<lparr>locked := Some (moment_format (clock w)),
                                 lastCompletedStep := newIndexCreated\<rparr>"
  using assms
  by (auto simp: createNewIndex_007_def getFlatSettings_007_def step_defs
           split: sum.splits prod.splits option.splits)

lemma startReindexing_outcome:
  assumes "stored w so"
  shows "case startReindexing env so w of
           (Inl e, w') \<Rightarrow> store w' = store w \<and> clock w' = clock w
         | (Inr op', w') \<Rightarrow> stored w' op' \<and> so_id op' = so_id so \<and> clock w' = clock w \<and>
             (\<exists>task. attributes op' = (attributes so)\<lparr>locked := Some (moment_format (clock w)),
                                 lastCompletedStep := reindexStarted, reindexTaskId := Some task,
                                 reindexTaskPercComplete := Some (Num 0)\<rparr>)"
  using assms
  by (auto simp: startReindexing_def getBooleanFieldPaths_def step_defs
           split: sum.splits prod.splits option.splits)

lemma updateReindexStatus_outcome:
  assumes "stored w so"
  shows "case updateReindexStatus env so w of
           (Inl e, w') \<Rightarrow> store w' = store w \<and> clock w' = clock w
         | (Inr op', w') \<Rightarrow> stored w' op' \<and> so_id op' = so_id so \<and> clock w' = clock w \<and>
             (\<exists>tr. tasks_get env (reindexTaskId (attributes so)) = Inr tr \<and>
                (if tr_completed tr
                 then attributes op' = (attributes so)\<lparr>locked := Some (moment_format (clock w)),
                                 lastCompletedStep := reindexCompleted,
                                 reindexTaskPercComplete := Some (Num 1)\<rparr>
                 else attributes op' = (attributes so)\<lparr>locked := Some (moment_format (clock w)),
                                 reindexTaskPercComplete :=
                                   Some (js_div (tr_created tr) (tr_total tr))\<rparr>))"
  using assms
  by (auto simp: updateReindexStatus_def step_defs
           split: sum.splits prod.splits option.splits if_splits list.splits)

lemma switchAlias_outcome:
  assumes "stored w so"
  shows "case switchAlias env so w of
           (Inl e, w') \<Rightarrow> store w' = store w \<and> clock w' = clock w
         | (Inr op', w') \<Rightarrow> stored w' op' \<and> so_id op' = so_id so \<and> clock w' = clock w \<and>
             attributes op' = (attributes so)\<lparr>locked := Some (moment_format (clock w)),
                 lastCompletedStep := aliasCreated,
                 status := (if isMlIndex env (indexName (attributes so)) then inProgress else completed)\<rparr>"
  using assms
  by (auto simp: switchAlias_def step_defs
           split: sum.splits prod.splits option.splits)

lemma switchAlias_007_outcome:
  assumes "stored w so"
  shows "case switchAlias_007 env so w of
           (Inl e, w') \<Rightarrow> store w' = store w \<and> clock w' = clock w
         | (Inr op', w') \<Rightarrow> stored w' op' \<and> so_id op' = so_id so \<and> clock w' = clock w \<and>
             attributes op' = (attributes so)\<lparr>locked := Some (moment_format (clock w)),
                 lastCompletedStep := aliasCreated, status := completed\<rparr>"
  using assms
  by (auto simp: switchAlias_007_def step_defs
           split: sum.splits prod.splits option.splits)

subsection \<open>The steps\<close>

lemma runWhileMlLocked_frame:
  assumes "\<And>d v r v'. func d v = (r, v') \<Longrightarrow> store v' = store v \<and> clock v' = clock v"
  shows "runWhileMlLocked func w = (r, w') \<Longrightarrow> store w' = store w \<and> clock w' = clock w"
  by (auto simp: runWhileMlLocked_def Let_def split: if_splits prod.splits sum.splits
           dest!: assms)

lemma incrementMlReindexes_frame:
  "incrementMlReindexes w = (r, w') \<Longrightarrow> store w' = store w \<and> clock w' = clock w"
  by (auto simp: incrementMlReindexes_def runWhileMlLocked_def await_def resolve_def Let_def
           split: if_splits prod.splits sum.splits)

lemma decrementMlReindexes_frame:
  "decrementMlReindexes w = (r, w') \<Longrightarrow> store w' = store w \<and> clock w' = clock w"
  by (auto simp: decrementMlReindexes_def runWhileMlLocked_def await_def resolve_def Let_def
           split: if_splits prod.splits sum.splits)

lemma validateNodesMinimumVersion_frame:
  "validateNodesMinimumVersion env a b w = (r, w') \<Longrightarrow> store w' = store w \<and> clock w' = clock w"
  by (auto simp: validateNodesMinimumVersion_def await_def callCluster_def throw_def resolve_def
           Let_def split: if_splits prod.splits sum.splits)

lemma await_frame:
  assumes "\<And>v r v'. m v = (r, v') \<Longrightarrow> store v' = store v \<and> clock v' = clock v"
      and "\<And>x v r v'. f x v = (r, v') \<Longrightarrow> store v' = store v \<and> clock v' = clock v"
  shows "await m f w = (r, w') \<Longrightarrow> store w' = store w \<and> clock w' = clock w"
  by (auto simp: await_def split: prod.splits sum.splits dest!: assms)

lemma callCluster_frame:
  "callCluster c a w = (r, w') \<Longrightarrow> store w' = store w \<and> clock w' = clock w"
  by (auto simp: callCluster_def)

lemma set_ml_frame:
  "runWhileMlLocked (\<lambda>mlDoc.
                 await (validateNodesMinimumVersion env 6 7) (\<lambda>_.
                 await (callCluster (MlSetUpgradeMode True) (ml_set_upgrade_mode env True))
                   (\<lambda>acknowledged.
                      if \<not> acknowledged then throw (Error ''Could not stop ML jobs'')
                      else resolve mlDoc))) w = (r, w') \<Longrightarrow> store w' = store w \<and> clock w' = clock w"
  apply (erule runWhileMlLocked_frame[rotated])
  apply (erule await_frame[rotated 2])
   apply (erule validateNodesMinimumVersion_frame)
  apply (erule await_frame[rotated 2])
   apply (erule callCluster_frame)
  apply (auto simp: throw_def resolve_def split: if_splits)
  done

lemma unset_ml_frame:
  "runWhileMlLocked (\<lambda>mlDoc.
                 if mlReindexCount mlDoc = 0
                 then await (callCluster (MlSetUpgradeMode False) (ml_set_upgrade_mode env False))
                        (\<lambda>acknowledged.
                           if \<not> acknowledged then throw (Error ''Could not resume ML jobs'')
                           else resolve mlDoc)
                 else resolve mlDoc) w = (r, w') \<Longrightarrow> store w' = store w \<and> clock w' = clock w"
  apply (erule runWhileMlLocked_frame[rotated])
  apply (auto simp: throw_def resolve_def await_def callCluster_def split: if_splits sum.splits)
  done

lemma setMlUpgradeMode_outcome:
  assumes "stored w so"
  shows "case setMlUpgradeMode env so w of
           (Inl e, w') \<Rightarrow> store w' = store w \<and> clock w' = clock w
         | (Inr op', w') \<Rightarrow> stored w' op' \<and> so_id op' = so_id so \<and> clock w' = clock w \<and>
             attributes op' = (attributes so)\<lparr>locked := Some (moment_format (clock w)),
                                 lastCompletedStep := mlUpgradeModeSet\<rparr>"
proof (cases "isMlIndex env (indexName (attributes so))")
  case False
  with updateReindexOp_outcome[OF assms, of "\<lambda>a. a\<lparr>lastCompletedStep := mlUpgradeModeSet\<rparr>"]
  show ?thesis by (auto simp: setMlUpgradeMode_def)
next
  case True
  show ?thesis
  proof (cases "incrementMlReindexes w")
    case (Pair r1 w1)
    note f1 = incrementMlReindexes_frame[OF Pair]
    show ?thesis
    proof (cases r1)
      case (Inl e)
      with True Pair f1 show ?thesis by (simp add: setMlUpgradeMode_def await_def)
    next
      case (Inr u)
      obtain r2 w2 where p2: "runWhileMlLocked (\<lambda>mlDoc.
                 await (validateNodesMinimumVersion env 6 7) (\<lambda>_.
                 await (callCluster (MlSetUpgradeMode True) (ml_set_upgrade_mode env True))
                   (\<lambda>acknowledged.
                      if \<not> acknowledged then throw (Error ''Could not stop ML jobs'')
                      else resolve mlDoc))) w1 = (r2, w2)" by fastforce
      note f2 = set_ml_frame[OF p2]
      show ?thesis
      proof (cases r2)
        case (Inl e)
        with True Pair Inr p2 f1 f2 show ?thesis by (simp add: setMlUpgradeMode_def await_def)
      next
        case (Inr d)
        have st: "stored w2 so" using assms f1 f2 by (simp add: stored_def)
        from updateReindexOp_outcome[OF st, of "\<lambda>a. a\<lparr>lastCompletedStep := mlUpgradeModeSet\<rparr>"]
        show ?thesis using True Pair \<open>r1 = Inr u\<close> p2 Inr f1 f2
          by (auto simp: setMlUpgradeMode_def await_def)
      qed
    qed
  qed
qed

lemma unsetMlUpgradeMode_outcome:
  assumes "stored w so"
  shows "case unsetMlUpgradeMode env so w of
           (Inl e, w') \<Rightarrow> store w' = store w \<and> clock w' = clock w
         | (Inr op', w') \<Rightarrow> stored w' op' \<and> so_id op' = so_id so \<and> clock w' = clock w \<and>
             attributes op' = (attributes so)\<lparr>locked := Some (moment_format (clock w)),
                                 lastCompletedStep := mlUpgradeModeUnset, status := completed\<rparr>"
proof (cases "isMlIndex env (indexName (attributes so))")
  case False
  with updateReindexOp_outcome[OF assms, of "\<lambda>a. a\<lparr>lastCompletedStep := mlUpgradeModeUnset, status := completed\<rparr>"]
  show ?thesis by (auto simp: unsetMlUpgradeMode_def)
next
  case True
  show ?thesis
  proof (cases "decrementMlReindexes w")
    case (Pair r1 w1)
    note f1 = decrementMlReindexes_frame[OF Pair]
    show ?thesis
    proof (cases r1)
      case (Inl e)
      with True Pair f1 show ?thesis by (simp add: unsetMlUpgradeMode_def await_def)
    next
      case (Inr u)
      obtain r2 w2 where p2: "runWhileMlLocked (\<lambda>mlDoc.
                 if mlReindexCount mlDoc = 0
                 then await (callCluster (MlSetUpgradeMode False) (ml_set_upgrade_mode env False))
                        (\<lambda>acknowledged.
                           if \<not> acknowledged then throw (Error ''Could not resume ML jobs'')
                           else resolve mlDoc)
                 else resolve mlDoc) w1 = (r2, w2)" by fastforce
      note f2 = unset_ml_frame[OF p2]
      show ?thesis
      proof (cases r2)
        case (Inl e)
        with True Pair Inr p2 f1 f2 show ?thesis by (simp add: unsetMlUpgradeMode_def await_def)
      next
        case (Inr d)
        have st: "stored w2 so" using assms f1 f2 by (simp add: stored_def)
        from updateReindexOp_outcome[OF st, of "\<lambda>a. a\<lparr>lastCompletedStep := mlUpgradeModeUnset, status := completed\<rparr>"]
        show ?thesis using True Pair \<open>r1 = Inr u\<close> p2 Inr f1 f2
          by (auto simp: unsetMlUpgradeMode_def await_def)
      qed
    qed
  qed
qed

lemma cleanupChanges_outcome:
  "cleanupChanges env idx w = (Inr (), w\<lparr>calls := calls w @ [IndicesPutSettings idx False]\<rparr>)"
  by (simp add: cleanupChanges_def callCluster_def)

lemma processNextStep_body_success:
  assumes "processNextStep_switch env so w = (Inr op2, w2)"
  shows "processNextStep_body env so w = (Inr op2, w2)"
  using assms by (simp add: processNextStep_body_def try_catch_def)

lemma processNextStep_body_failure:
  assumes st: "stored w so" and sw: "processNextStep_switch env so w = (Inl e, w2)"
      and fr: "store w2 = store w"
  shows "\<exists>op' w'. processNextStep_body env so w = (Inr op', w') \<and> stored w' op' \<and>
           so_id op' = so_id so \<and>
           attributes op' = (attributes so)\<lparr>locked := Some (moment_format (clock w2)),
               status := failed, errorMessage := Some (errorMessage_of env e)\<rparr> \<and>
           calls w' = calls w2 @ [IndicesPutSettings (indexName (attributes so)) False] \<and>
           mlDoc w' = mlDoc w2 \<and> clock w' = clock w2"
proof -
  have st2: "stored w2 so" using st fr by (simp add: stored_def)
  from updateReindexOp_outcome[OF st2,
      of "\<lambda>a. a\<lparr>status := failed, errorMessage := Some (errorMessage_of env e)\<rparr>"]
  obtain fo w3 where u: "updateReindexOp so
        (\<lambda>a. a\<lparr>status := failed, errorMessage := Some (errorMessage_of env e)\<rparr>) w2 = (Inr fo, w3)"
    and f: "stored w3 fo" "so_id fo = so_id so"
      "attributes fo = (attributes so)\<lparr>locked := Some (moment_format (clock w2)),
               status := failed, errorMessage := Some (errorMessage_of env e)\<rparr>"
      "calls w3 = calls w2" "mlDoc w3 = mlDoc w2" "clock w3 = clock w2"
    by auto
  have "processNextStep_body env so w =
          (Inr fo, w3\<lparr>calls := calls w3 @ [IndicesPutSettings (indexName (attributes fo)) False]\<rparr>)"
    using sw u
    by (simp add: processNextStep_body_def try_catch_def await_def cleanupChanges_outcome resolve_def)
  then show ?thesis using f by (auto simp: stored_def)
qed

lemma processNextStep_switch_outcome:
  assumes "stored w so"
  shows "case processNextStep_switch env so w of
           (Inl e, w') \<Rightarrow> store w' = store w \<and> clock w' = clock w
         | (Inr op', w') \<Rightarrow> stored w' op' \<and> so_id op' = so_id so \<and> clock w' = clock w \<and>
             indexName (attributes op') = indexName (attributes so) \<and>
             errorMessage (attributes op') = errorMessage (attributes so) \<and>
             (status (attributes op') = failed \<longrightarrow> status (attributes so) = failed) \<and>
             (if lastCompletedStep (attributes so) = mlUpgradeModeUnset then op' = so \<and> w' = w
              else if lastCompletedStep (attributes so) = reindexStarted \<and>
                      (\<exists>tr. tasks_get env (reindexTaskId (attributes so)) = Inr tr \<and>
                            \<not> tr_completed tr)
              then lastCompletedStep (attributes op') = reindexStarted \<and>
                   status (attributes op') = status (attributes so)
              else step_index (lastCompletedStep (attributes op')) =
                     Suc (step_index (lastCompletedStep (attributes so))))"
proof (cases "lastCompletedStep (attributes so)")
  case created
  with setMlUpgradeMode_outcome[OF assms, of env] show ?thesis
    by (auto simp: processNextStep_switch_def split: prod.splits sum.splits)
next
  case mlUpgradeModeSet
  with setReadonly_outcome[OF assms, of env] show ?thesis
    by (auto simp: processNextStep_switch_def split: prod.splits sum.splits)
next
  case readonly
  with createNewIndex_outcome[OF assms, of env] show ?thesis
    by (auto simp: processNextStep_switch_def split: prod.splits sum.splits)
next
  case newIndexCreated
  with startReindexing_outcome[OF assms, of env] show ?thesis
    by (auto simp: processNextStep_switch_def split: prod.splits sum.splits)
next
  case reindexStarted
  then have sw: "processNextStep_switch env so w = updateReindexStatus env so w"
    by (simp add: processNextStep_switch_def)
  show ?thesis
  proof (cases "updateReindexStatus env so w")
    case (Pair r w')
    show ?thesis
    proof (cases r)
      case (Inl e)
      with Pair sw updateReindexStatus_outcome[OF assms, of env] show ?thesis by simp
    next
      case (Inr op')
      with Pair updateReindexStatus_outcome[OF assms, of env]
      obtain tr where tr: "tasks_get env (reindexTaskId (attributes so)) = Inr tr"
        and a: "stored w' op'" "so_id op' = so_id so" "clock w' = clock w"
        and b: "tr_completed tr \<Longrightarrow> attributes op' =
                  (attributes so)\<lparr>locked := Some (moment_format (clock w)),
                      lastCompletedStep := reindexCompleted,
                      reindexTaskPercComplete := Some (Num 1)\<rparr>"
        and c: "\<not> tr_completed tr \<Longrightarrow> attributes op' =
                  (attributes so)\<lparr>locked := Some (moment_format (clock w)),
                      reindexTaskPercComplete := Some (js_div (tr_created tr) (tr_total tr))\<rparr>"
        by (auto split: if_splits)
      show ?thesis
      proof (cases "tr_completed tr")
        case True
        with b tr a reindexStarted sw Pair Inr show ?thesis by simp
      next
        case False
        with c tr a reindexStarted sw Pair Inr show ?thesis by auto
      qed
    qed
  qed
next
  case reindexCompleted
  with switchAlias_outcome[OF assms, of env] show ?thesis
    by (auto simp: processNextStep_switch_def split: prod.splits sum.splits)
next
  case aliasCreated
  with unsetMlUpgradeMode_outcome[OF assms, of env] show ?thesis
    by (auto simp: processNextStep_switch_def split: prod.splits sum.splits)
next
  case mlUpgradeModeUnset
  with assms show ?thesis
    by (auto simp: processNextStep_switch_def resolve_def split: prod.splits sum.splits)
qed

lemma processNextStep_body_returns:
  assumes st: "stored w so"
  shows "\<exists>op2 w2. processNextStep_body env so w = (Inr op2, w2) \<and> stored w2 op2 \<and>
           so_id op2 = so_id so"
proof (cases "processNextStep_switch env so w")
  case (Pair r w')
  show ?thesis
  proof (cases r)
    case (Inl e)
    with Pair processNextStep_switch_outcome[OF st, of env]
    have "store w' = store w" by simp
    from processNextStep_body_failure[OF st _ this, of env e] Pair Inl
    show ?thesis by auto
  next
    case (Inr op2)
    with Pair processNextStep_switch_outcome[OF st, of env]
      processNextStep_body_success[of env so w op2 w']
    show ?thesis by auto
  qed
qed

lemma processNextStep_run:
  assumes acq: "acquireLock so w = (Inr lockedOp, w1)"
  shows "\<exists>op2 w2 op' w'. processNextStep_body env lockedOp w1 = (Inr op2, w2) \<and>
           processNextStep env so w = (Inr op', w') \<and> stored w' op' \<and> so_id op' = so_id so \<and>
           attributes op' = (attributes op2)\<lparr>locked := None\<rparr> \<and>
           calls w' = calls w2 \<and> mlDoc w' = mlDoc w2"
proof -
  from acquireLock_result[OF acq] have st1: "stored w1 lockedOp" and id1: "so_id lockedOp = so_id so"
    by simp_all
  from processNextStep_body_returns[OF st1, of env]
  obtain op2 w2 where b: "processNextStep_body env lockedOp w1 = (Inr op2, w2)"
    and st2: "stored w2 op2" and id2: "so_id op2 = so_id lockedOp" by blast
  from releaseLock_outcome[OF st2]
  obtain op' w' where r: "releaseLock op2 w2 = (Inr op', w')" and st': "stored w' op'"
    and p: "so_id op' = so_id op2" "attributes op' = (attributes op2)\<lparr>locked := None\<rparr>"
      "calls w' = calls w2" "mlDoc w' = mlDoc w2" by blast
  have "processNextStep env so w = (Inr op', w')"
    using acq b r by (simp add: processNextStep_def runWhileLocked_def await_def)
  with b st' p id1 id2 show ?thesis by auto
qed

lemma processNextStep_refused:
  assumes "acquireLock so w = (Inl e, w1)"
  shows "processNextStep env so w = (Inl e, w)"
  using assms acquireLock_error[OF assms]
  by (simp add: processNextStep_def runWhileLocked_def await_def)


subsection \<open>Taking and clearing the lock\<close>

lemma stored_world_with: "stored (world_with so) so"
  by (simp add: stored_def world_with_def store_get_def)

text \<open>
  C1. The lease of \<^verbatim>\<open>part_007\<close>. A lock younger than 90 seconds refuses the caller
  with a conflict and leaves the state as it was (\<open>acquireLock_held\<close>); an operation
  that is not locked is stamped with the instant of the attempt
  (\<open>acquireLock_unlocked_stamps_now\<close>); and once the lock is taken,
  \<open>processNextStep_007\<close> returns an operation whose lock is cleared, whether the step
  returned or threw (\<open>processNextStep_007_clears_lock\<close>). An abandoned lock is taken
  too, but the stamp is not the instant of the attempt: the subtraction has moved
  \<^verbatim>\<open>now\<close> back by the lock window (\<open>acquireLock_stale_stamps_earlier\<close>). On the
  operation locked at second 100 and seen at second 200 the lock is taken and stamped
  with second 110, not with second 200.
\<close>

theorem acquireLock_stale_lock_stamp:
  "\<exists>op' w'. acquireLock stale_op stale_world = (Inr op', w') \<and>
     locked (attributes op') = Some (clock stale_world - LOCK_WINDOW) \<and>
     locked (attributes op') = Some 110000 \<and> moment_format (clock stale_world) = 200000 \<and>
     locked (attributes op') \<noteq> Some (moment_format (clock stale_world))"
proof -
  have st: "stored stale_world stale_op"
    by (simp add: stale_world_def stored_def world_with_def store_get_def)
  have nh: "\<not> lock_held (clock stale_world) stale_op"
    by (simp add: lock_held_def stale_world_def stale_op_def mock_op_def LOCK_WINDOW_def world_with_def)
  have ls: "lock_stamp (clock stale_world) stale_op = 110000"
    by (simp add: lock_stamp_def stale_world_def stale_op_def mock_op_def LOCK_WINDOW_def
          world_with_def moment_format_def)
  show ?thesis
    using acquireLock_free[OF st nh] ls
    by (simp add: stale_world_def world_with_def LOCK_WINDOW_def moment_format_def)
qed

lemma acquireLock_unlocked_stamps_now:
  assumes "stored w so" "locked (attributes so) = None"
  shows "\<exists>op' w'. acquireLock so w = (Inr op', w') \<and> stored w' op' \<and>
           attributes op' = (attributes so)\<lparr>locked := Some (moment_format (clock w))\<rparr>"
proof -
  have nh: "\<not> lock_held (clock w) so" using assms(2) by (simp add: lock_held_def)
  have "lock_stamp (clock w) so = moment_format (clock w)"
    using assms(2) by (simp add: lock_stamp_def)
  with acquireLock_free[OF assms(1) nh] assms(1) show ?thesis
    by (simp add: stored_def store_get_put)
qed

lemma acquireLock_stale_stamps_earlier:
  assumes "stored w so" "locked (attributes so) = Some t" "\<not> clock w - LOCK_WINDOW < t"
  shows "\<exists>op' w'. acquireLock so w = (Inr op', w') \<and> stored w' op' \<and>
           attributes op' = (attributes so)\<lparr>locked := Some (moment_format (clock w - LOCK_WINDOW))\<rparr>"
proof -
  have nh: "\<not> lock_held (clock w) so" using assms(2,3) by (simp add: lock_held_def)
  have "lock_stamp (clock w) so = moment_format (clock w - LOCK_WINDOW)"
    using assms(2) by (simp add: lock_stamp_def)
  with acquireLock_free[OF assms(1) nh] assms(1) show ?thesis
    by (simp add: stored_def store_get_put)
qed

lemma processNextStep_switch_007_outcome:
  assumes "stored w so"
  shows "case processNextStep_switch_007 env so w of
           (Inl e, w') \<Rightarrow> store w' = store w
         | (Inr op', w') \<Rightarrow> stored w' op' \<and> so_id op' = so_id so"
proof (cases "lastCompletedStep (attributes so)")
  case created
  with setReadonly_outcome[OF assms, of env] show ?thesis
    by (auto simp: processNextStep_switch_007_def split: prod.splits sum.splits)
next
  case readonly
  with createNewIndex_007_outcome[OF assms, of env] show ?thesis
    by (auto simp: processNextStep_switch_007_def split: prod.splits sum.splits)
next
  case newIndexCreated
  with startReindexing_outcome[OF assms, of env] show ?thesis
    by (auto simp: processNextStep_switch_007_def split: prod.splits sum.splits)
next
  case reindexStarted
  with updateReindexStatus_outcome[OF assms, of env] show ?thesis
    by (auto simp: processNextStep_switch_007_def split: prod.splits sum.splits)
next
  case reindexCompleted
  with switchAlias_007_outcome[OF assms, of env] show ?thesis
    by (auto simp: processNextStep_switch_007_def split: prod.splits sum.splits)
qed (use assms in \<open>auto simp: processNextStep_switch_007_def resolve_def\<close>)

lemma processNextStep_007_clears_lock:
  assumes acq: "acquireLock so w = (Inr lockedOp, w1)"
  shows "\<exists>op' w'. processNextStep_007 env so w = (Inr op', w') \<and> stored w' op' \<and>
           so_id op' = so_id so \<and> locked (attributes op') = None"
proof -
  from acquireLock_result[OF acq] have st1: "stored w1 lockedOp" and id1: "so_id lockedOp = so_id so"
    by simp_all
  show ?thesis
  proof (cases "processNextStep_switch_007 env lockedOp w1")
    case (Pair r w2)
    show ?thesis
    proof (cases r)
      case (Inr stepped)
      with Pair processNextStep_switch_007_outcome[OF st1, of env]
      have st2: "stored w2 stepped" and id2: "so_id stepped = so_id lockedOp" by simp_all
      from releaseLock_outcome[OF st2] obtain op' w' where
        "releaseLock stepped w2 = (Inr op', w')" "stored w' op'" "so_id op' = so_id stepped"
        "attributes op' = (attributes stepped)\<lparr>locked := None\<rparr>" by blast
      then show ?thesis using acq Pair Inr id1 id2
        by (simp add: processNextStep_007_def await_def)
    next
      case (Inl e)
      with Pair processNextStep_switch_007_outcome[OF st1, of env]
      have "store w2 = store w1" by simp
      then have st2: "stored w2 lockedOp" using st1 by (simp add: stored_def)
      from updateReindexOp_outcome[OF st2,
          of "\<lambda>a. a\<lparr>status := failed, errorMessage := Some (errorMessage_of env e)\<rparr>"]
      obtain fo w3 where u: "updateReindexOp lockedOp
          (\<lambda>a. a\<lparr>status := failed, errorMessage := Some (errorMessage_of env e)\<rparr>) w2 = (Inr fo, w3)"
        and st3: "stored w3 fo" and id3: "so_id fo = so_id lockedOp" by blast
      from releaseLock_outcome[OF st3] obtain op' w' where
        "releaseLock fo w3 = (Inr op', w')" "stored w' op'" "so_id op' = so_id fo"
        "attributes op' = (attributes fo)\<lparr>locked := None\<rparr>" by blast
      then show ?thesis using acq Pair Inl u id1 id3
        by (simp add: processNextStep_007_def await_def)
    qed
  qed
qed

subsection \<open>Polling the reindex task\<close>

lemma updateReindexStatus_incomplete:
  assumes st: "stored w so"
      and tr: "tasks_get env (reindexTaskId (attributes so)) = Inr tr" "\<not> tr_completed tr"
  shows "\<exists>op' w'. updateReindexStatus env so w = (Inr op', w') \<and> stored w' op' \<and>
           attributes op' = (attributes so)\<lparr>locked := Some (moment_format (clock w)),
               reindexTaskPercComplete := Some (js_div (tr_created tr) (tr_total tr))\<rparr> \<and>
           calls w' = calls w @ [TasksGet (reindexTaskId (attributes so))] \<and> mlDoc w' = mlDoc w"
  using assms by (auto simp: updateReindexStatus_def step_defs)

lemma acquire_then:
  assumes st: "stored w so" and nh: "\<not> lock_held (clock w) so"
  obtains lockedOp w1 where "acquireLock so w = (Inr lockedOp, w1)" "stored w1 lockedOp"
    "attributes lockedOp = (attributes so)\<lparr>locked := Some (lock_stamp (clock w) so)\<rparr>"
    "calls w1 = calls w" "mlDoc w1 = mlDoc w" "clock w1 = clock w" "so_id lockedOp = so_id so"
proof -
  from acquireLock_free[OF st nh] obtain lockedOp w1 where a: "acquireLock so w = (Inr lockedOp, w1)"
    by blast
  from acquireLock_result[OF a] a that show ?thesis by blast
qed

text \<open>
  C4. On a stored operation at \<^verbatim>\<open>reindexStarted\<close> whose lock is free, while the
  cluster reports the task as not completed, \<open>processNextStep\<close> returns the operation
  with the step and the status it had; the only attribute that moved is
  \<^verbatim>\<open>reindexTaskPercComplete\<close>, now \<^verbatim>\<open>created / total\<close> of the task response (the
  lock is cleared again on exit). A second call on the result returns the same
  attributes.
\<close>

theorem processNextStep_incomplete_task_only_moves_percentage:
  assumes st: "stored w reindexOp" and nh: "\<not> lock_held (clock w) reindexOp"
      and step: "lastCompletedStep (attributes reindexOp) = reindexStarted"
      and tr: "tasks_get env (reindexTaskId (attributes reindexOp)) = Inr tr" "\<not> tr_completed tr"
  shows "\<exists>op' w'. processNextStep env reindexOp w = (Inr op', w') \<and> stored w' op' \<and>
           lastCompletedStep (attributes op') = reindexStarted \<and>
           status (attributes op') = status (attributes reindexOp) \<and>
           attributes op' = (attributes reindexOp)\<lparr>locked := None,
               reindexTaskPercComplete := Some (js_div (tr_created tr) (tr_total tr))\<rparr> \<and>
           (\<exists>op'' w''. processNextStep env op' w' = (Inr op'', w'') \<and>
               attributes op'' = attributes op')"
proof -
  have once: "\<exists>op' w'. processNextStep env so v = (Inr op', w') \<and> stored w' op' \<and>
           attributes op' = (attributes so)\<lparr>locked := None,
               reindexTaskPercComplete := Some (js_div (tr_created tr) (tr_total tr))\<rparr> \<and>
           clock w' = clock v"
    if st: "stored v so" and nh: "\<not> lock_held (clock v) so"
      and step: "lastCompletedStep (attributes so) = reindexStarted"
      and tr': "tasks_get env (reindexTaskId (attributes so)) = Inr tr" for so v
  proof -
    from acquire_then[OF st nh] obtain lockedOp w1 where
      a: "acquireLock so v = (Inr lockedOp, w1)" and st1: "stored w1 lockedOp"
      and at1: "attributes lockedOp = (attributes so)\<lparr>locked := Some (lock_stamp (clock v) so)\<rparr>"
      and c1: "clock w1 = clock v"
      by blast
    have tr1: "tasks_get env (reindexTaskId (attributes lockedOp)) = Inr tr"
      using tr' at1 by simp
    from updateReindexStatus_incomplete[OF st1 tr1 tr(2)] obtain op2 w2 where
      u: "updateReindexStatus env lockedOp w1 = (Inr op2, w2)" and st2: "stored w2 op2"
      and at2: "attributes op2 = (attributes lockedOp)\<lparr>locked := Some (moment_format (clock w1)),
               reindexTaskPercComplete := Some (js_div (tr_created tr) (tr_total tr))\<rparr>"
      by blast
    have sw: "processNextStep_switch env lockedOp w1 = (Inr op2, w2)"
      using u step at1 by (simp add: processNextStep_switch_def)
    have c2: "clock w2 = clock w1"
      using processNextStep_switch_outcome[OF st1, of env] sw by simp
    from releaseLock_outcome[OF st2] obtain op' w' where
      r: "releaseLock op2 w2 = (Inr op', w')" "stored w' op'"
        "attributes op' = (attributes op2)\<lparr>locked := None\<rparr>" "clock w' = clock w2" by blast
    have "processNextStep env so v = (Inr op', w')"
      using a processNextStep_body_success[OF sw] r(1)
      by (simp add: processNextStep_def runWhileLocked_def await_def)
    then show ?thesis using r at2 at1 c1 c2 by simp
  qed
  from once[OF st nh step tr(1)] obtain op' w' where
    p: "processNextStep env reindexOp w = (Inr op', w')" "stored w' op'"
      "attributes op' = (attributes reindexOp)\<lparr>locked := None,
               reindexTaskPercComplete := Some (js_div (tr_created tr) (tr_total tr))\<rparr>"
    by blast
  have nh': "\<not> lock_held (clock w') op'" using p(3) by (simp add: lock_held_def)
  have step': "lastCompletedStep (attributes op') = reindexStarted" using p(3) step by simp
  have tr'': "tasks_get env (reindexTaskId (attributes op')) = Inr tr" using p(3) tr(1) by simp
  from once[OF p(2) nh' step' tr''] obtain op'' w'' where
    "processNextStep env op' w' = (Inr op'', w'')" "attributes op'' = attributes op'"
    using p(3) by auto
  with p step show ?thesis by auto
qed

subsection \<open>Trapped errors and the order of the steps\<close>

lemma processNextStep_success:
  assumes acq: "acquireLock so w = (Inr lockedOp, w1)"
      and sw: "processNextStep_switch env lockedOp w1 = (Inr op2, w2)"
  shows "\<exists>op' w'. processNextStep env so w = (Inr op', w') \<and> stored w' op' \<and>
           so_id op' = so_id so \<and> attributes op' = (attributes op2)\<lparr>locked := None\<rparr> \<and>
           calls w' = calls w2 \<and> mlDoc w' = mlDoc w2"
  using processNextStep_run[OF acq, of env] processNextStep_body_success[OF sw] by auto

lemma processNextStep_failure:
  assumes acq: "acquireLock so w = (Inr lockedOp, w1)"
      and sw: "processNextStep_switch env lockedOp w1 = (Inl e, w2)"
  shows "\<exists>op' w'. processNextStep env so w = (Inr op', w') \<and> stored w' op' \<and>
           so_id op' = so_id so \<and>
           attributes op' = (attributes so)\<lparr>locked := None, status := failed,
               errorMessage := Some (errorMessage_of env e)\<rparr> \<and>
           calls w' = calls w2 @ [IndicesPutSettings (indexName (attributes so)) False] \<and>
           mlDoc w' = mlDoc w2"
proof -
  from acquireLock_result[OF acq] have st1: "stored w1 lockedOp"
    and at1: "attributes lockedOp = (attributes so)\<lparr>locked := Some (lock_stamp (clock w) so)\<rparr>"
    by simp_all
  from processNextStep_switch_outcome[OF st1, of env] sw have fr: "store w2 = store w1" by simp
  from processNextStep_body_failure[OF st1 sw fr] processNextStep_run[OF acq, of env] at1
  show ?thesis by auto
qed

lemma errorMessage_of_nonempty:
  "instanceof_Error e \<or> error_message e \<noteq> [] \<Longrightarrow> errorMessage_of env e \<noteq> []"
  by (cases e) (auto simp: errorMessage_of_def error_stack_def)

lemma runWhileLocked_result:
  assumes r: "runWhileLocked so func w = (Inr op', w')"
  shows "\<exists>lockedOp w1 op2 w2. acquireLock so w = (Inr lockedOp, w1) \<and>
           func lockedOp w1 = (Inr op2, w2) \<and> releaseLock op2 w2 = (Inr op', w')"
  using r
  by (auto simp: runWhileLocked_def await_def throw_def split: sum.splits prod.splits)

lemma releaseLock_result:
  "releaseLock so w = (Inr op', w') \<Longrightarrow> stored w' op' \<and> attributes op' = (attributes so)\<lparr>locked := None\<rparr>"
  by (auto simp: releaseLock_def dest!: client_update_result)

lemma updateReindexOp_result:
  "updateReindexOp so f w = (Inr op', w') \<Longrightarrow>
     stored w' op' \<and> attributes op' = f ((attributes so)\<lparr>locked := Some (moment_format (clock w))\<rparr>)"
  by (auto simp: updateReindexOp_def dest!: client_update_result)

lemma pauseReindexOperation_status:
  assumes "pauseReindexOperation idx w = (Inr op', w')"
  shows "status (attributes op') = paused \<and> locked (attributes op') = None"
proof -
  from assms obtain so w0 where
    r: "runWhileLocked so (\<lambda>lockedOp.
             if status (attributes lockedOp) \<noteq> inProgress
             then throw (Error ''Reindex operation must be inProgress in order to be paused.'')
             else updateReindexOp lockedOp (\<lambda>a. a\<lparr>status := paused\<rparr>)) w0 = (Inr op', w')"
    by (auto simp: pauseReindexOperation_def await_def throw_def split: sum.splits prod.splits option.splits)
  from runWhileLocked_result[OF r] obtain lockedOp w1 op2 w2 where
    b: "(if status (attributes lockedOp) \<noteq> inProgress
             then throw (Error ''Reindex operation must be inProgress in order to be paused.'')
             else updateReindexOp lockedOp (\<lambda>a. a\<lparr>status := paused\<rparr>)) w1 = (Inr op2, w2)"
    and rl: "releaseLock op2 w2 = (Inr op', w')" by blast
  from b have "updateReindexOp lockedOp (\<lambda>a. a\<lparr>status := paused\<rparr>) w1 = (Inr op2, w2)"
    by (auto simp: throw_def split: if_splits)
  from updateReindexOp_result[OF this] releaseLock_result[OF rl] show ?thesis by simp
qed

lemma resumeReindexOperation_status:
  assumes "resumeReindexOperation idx w = (Inr op', w')"
  shows "status (attributes op') = inProgress \<and> locked (attributes op') = None"
proof -
  from assms obtain so w0 where
    r: "runWhileLocked so (\<lambda>lockedOp.
             if status (attributes lockedOp) \<noteq> paused
             then throw (Error ''Reindex operation must be paused in order to be resumed.'')
             else updateReindexOp lockedOp (\<lambda>a. a\<lparr>status := inProgress\<rparr>)) w0 = (Inr op', w')"
    by (auto simp: resumeReindexOperation_def await_def throw_def split: sum.splits prod.splits option.splits)
  from runWhileLocked_result[OF r] obtain lockedOp w1 op2 w2 where
    b: "(if status (attributes lockedOp) \<noteq> paused
             then throw (Error ''Reindex operation must be paused in order to be resumed.'')
             else updateReindexOp lockedOp (\<lambda>a. a\<lparr>status := inProgress\<rparr>)) w1 = (Inr op2, w2)"
    and rl: "releaseLock op2 w2 = (Inr op', w')" by blast
  from b have "updateReindexOp lockedOp (\<lambda>a. a\<lparr>status := inProgress\<rparr>) w1 = (Inr op2, w2)"
    by (auto simp: throw_def split: if_splits)
  from updateReindexOp_result[OF this] releaseLock_result[OF rl] show ?thesis by simp
qed


text \<open>
  C10. \<open>processNextStep\<close> never moves \<^verbatim>\<open>lastCompletedStep\<close> backwards. When the lock
  is refused nothing is written. When it is taken, the step marker of the result is not
  before the one of the operation; if the step threw, the marker is the prior one and
  the status is \<^verbatim>\<open>failed\<close>; if the step returned, the marker is unchanged at the
  terminal step \<^verbatim>\<open>mlUpgradeModeUnset\<close>, unchanged at \<^verbatim>\<open>reindexStarted\<close> while the
  task is not completed, and otherwise exactly one position further.
\<close>

theorem processNextStep_never_moves_backwards:
  "case acquireLock reindexOp w of
     (Inl e, w1) \<Rightarrow> processNextStep env reindexOp w = (Inl e, w)
   | (Inr lockedOp, w1) \<Rightarrow>
       (\<exists>op' w'. processNextStep env reindexOp w = (Inr op', w') \<and> stored w' op' \<and>
          step_index (lastCompletedStep (attributes reindexOp))
            \<le> step_index (lastCompletedStep (attributes op')) \<and>
          (case fst (processNextStep_switch env lockedOp w1) of
             Inl e \<Rightarrow> lastCompletedStep (attributes op') = lastCompletedStep (attributes reindexOp) \<and>
                      status (attributes op') = failed
           | Inr stepped \<Rightarrow>
               if lastCompletedStep (attributes reindexOp) = mlUpgradeModeUnset
               then lastCompletedStep (attributes op') = mlUpgradeModeUnset
               else if lastCompletedStep (attributes reindexOp) = reindexStarted \<and>
                       (\<exists>tr. tasks_get env (reindexTaskId (attributes reindexOp)) = Inr tr \<and>
                             \<not> tr_completed tr)
               then lastCompletedStep (attributes op') = reindexStarted
               else step_index (lastCompletedStep (attributes op')) =
                      step_index (lastCompletedStep (attributes reindexOp)) + 1))"
proof (cases "acquireLock reindexOp w")
  case (Pair r w1)
  show ?thesis
  proof (cases r)
    case (Inl e)
    with Pair processNextStep_refused[of reindexOp w e w1 env] show ?thesis by simp
  next
    case (Inr lockedOp)
    with Pair have acq: "acquireLock reindexOp w = (Inr lockedOp, w1)" by simp
    from acquireLock_result[OF acq] have st1: "stored w1 lockedOp"
      and at1: "attributes lockedOp = (attributes reindexOp)\<lparr>locked := Some (lock_stamp (clock w) reindexOp)\<rparr>"
      by simp_all
    have "\<exists>op' w'. processNextStep env reindexOp w = (Inr op', w') \<and> stored w' op' \<and>
          step_index (lastCompletedStep (attributes reindexOp))
            \<le> step_index (lastCompletedStep (attributes op')) \<and>
          (case fst (processNextStep_switch env lockedOp w1) of
             Inl e \<Rightarrow> lastCompletedStep (attributes op') = lastCompletedStep (attributes reindexOp) \<and>
                      status (attributes op') = failed
           | Inr stepped \<Rightarrow>
               if lastCompletedStep (attributes reindexOp) = mlUpgradeModeUnset
               then lastCompletedStep (attributes op') = mlUpgradeModeUnset
               else if lastCompletedStep (attributes reindexOp) = reindexStarted \<and>
                       (\<exists>tr. tasks_get env (reindexTaskId (attributes reindexOp)) = Inr tr \<and>
                             \<not> tr_completed tr)
               then lastCompletedStep (attributes op') = reindexStarted
               else step_index (lastCompletedStep (attributes op')) =
                      step_index (lastCompletedStep (attributes reindexOp)) + 1)"
    proof (cases "processNextStep_switch env lockedOp w1")
      case (Pair r2 w2)
      show ?thesis
      proof (cases r2)
        case (Inl e)
        from processNextStep_failure[OF acq, of env e w2] Pair Inl
        show ?thesis by auto
      next
        case (Inr op2)
        with Pair have sw: "processNextStep_switch env lockedOp w1 = (Inr op2, w2)" by simp
        from processNextStep_switch_outcome[OF st1, of env] sw
        have o: "if lastCompletedStep (attributes lockedOp) = mlUpgradeModeUnset then op2 = lockedOp \<and> w2 = w1
              else if lastCompletedStep (attributes lockedOp) = reindexStarted \<and>
                      (\<exists>tr. tasks_get env (reindexTaskId (attributes lockedOp)) = Inr tr \<and>
                            \<not> tr_completed tr)
              then lastCompletedStep (attributes op2) = reindexStarted \<and>
                   status (attributes op2) = status (attributes lockedOp)
              else step_index (lastCompletedStep (attributes op2)) =
                     Suc (step_index (lastCompletedStep (attributes lockedOp)))"
          by simp
        from processNextStep_success[OF acq sw] obtain op' w' where
          p: "processNextStep env reindexOp w = (Inr op', w')" "stored w' op'"
            "attributes op' = (attributes op2)\<lparr>locked := None\<rparr>" by blast
        show ?thesis using o p sw at1 by (auto split: if_splits)
      qed
    qed
    with Pair Inr show ?thesis by simp
  qed
qed

subsection \<open>A completed reindex task\<close>

lemma updateReindexStatus_failures:
  assumes tr: "tasks_get env (reindexTaskId (attributes so)) = Inr tr" "tr_completed tr"
      "tr_created tr < tr_total tr"
  shows "\<exists>e. updateReindexStatus env so w =
              (Inl e, w\<lparr>calls := calls w @ [TasksGet (reindexTaskId (attributes so))]\<rparr>) \<and>
           instanceof_Error e \<and>
           (\<forall>f fs. tr_failures tr = Some (f # fs) \<longrightarrow>
              e = Boom badData (''Reindexing failed with failures like: '' @ f))"
  using assms
  by (auto simp: updateReindexStatus_def step_defs split: option.splits list.splits)

lemma updateReindexStatus_completed:
  assumes st: "stored w so"
      and tr: "tasks_get env (reindexTaskId (attributes so)) = Inr tr" "tr_completed tr"
      "\<not> tr_created tr < tr_total tr"
  shows "\<exists>r w'. updateReindexStatus env so w = (r, w') \<and>
           calls w' = calls w @ [TasksGet (reindexTaskId (attributes so)),
                                 DeleteTask (reindexTaskId (attributes so))] \<and>
           (delete_task env (reindexTaskId (attributes so)) = Inr ''deleted'' \<longrightarrow>
              (\<exists>op'. r = Inr op' \<and>
                 attributes op' = (attributes so)\<lparr>locked := Some (moment_format (clock w)),
                     lastCompletedStep := reindexCompleted,
                     reindexTaskPercComplete := Some (Num 1)\<rparr>))"
  using assms
  by (auto simp: updateReindexStatus_def step_defs split: sum.splits)

lemma sublist_stack:
  assumes "error_message e \<noteq> []" "instanceof_Error e"
  shows "sublist (error_message e) (errorMessage_of env e)"
proof -
  have "errorMessage_of env e = (error_name e @ '': '') @ error_message e @ stack_frames env e"
    using assms by (simp add: errorMessage_of_def error_stack_def)
  then show ?thesis by (simp only: sublist_appendI)
qed

lemma sublist_failure_example:
  "sublist f (error_message (Boom badData (''Reindexing failed with failures like: '' @ f)))"
proof -
  have "error_message (Boom badData (''Reindexing failed with failures like: '' @ f)) =
          ''Reindexing failed with failures like: '' @ f @ []" by simp
  then show ?thesis by (simp only: sublist_appendI)
qed

text \<open>
  C3. On an operation at \<^verbatim>\<open>reindexStarted\<close> whose task the cluster reports as
  completed: with \<^verbatim>\<open>created < total\<close> the step fails, the marker stays at
  \<^verbatim>\<open>reindexStarted\<close>, the status is \<^verbatim>\<open>failed\<close> and the message is not empty and
  contains the first failure of the task response when there is one; otherwise the
  request to delete the task from \<^verbatim>\<open>.tasks\<close> is sent and, when the cluster answers
  \<^verbatim>\<open>deleted\<close>, the marker is \<^verbatim>\<open>reindexCompleted\<close> and
  \<^verbatim>\<open>reindexTaskPercComplete\<close> is 1.
\<close>

theorem processNextStep_completed_task:
  assumes acq: "acquireLock reindexOp w = (Inr lockedOp, w1)"
      and step: "lastCompletedStep (attributes reindexOp) = reindexStarted"
      and tr: "tasks_get env (reindexTaskId (attributes reindexOp)) = Inr tr" "tr_completed tr"
  shows "\<exists>op' w'. processNextStep env reindexOp w = (Inr op', w') \<and> stored w' op' \<and>
           (tr_created tr < tr_total tr \<longrightarrow>
              lastCompletedStep (attributes op') = reindexStarted \<and>
              status (attributes op') = failed \<and>
              has_errorMessage (attributes op') \<and>
              (\<forall>f fs. tr_failures tr = Some (f # fs) \<longrightarrow>
                 (\<exists>m. errorMessage (attributes op') = Some m \<and> sublist f m))) \<and>
           (\<not> tr_created tr < tr_total tr \<longrightarrow>
              DeleteTask (reindexTaskId (attributes reindexOp)) \<in> set (drop (length (calls w)) (calls w')) \<and>
              (delete_task env (reindexTaskId (attributes reindexOp)) = Inr ''deleted'' \<longrightarrow>
                 lastCompletedStep (attributes op') = reindexCompleted \<and>
                 reindexTaskPercComplete (attributes op') = Some (Num 1) \<and>
                 calls w' = calls w @ [TasksGet (reindexTaskId (attributes reindexOp)),
                                       DeleteTask (reindexTaskId (attributes reindexOp))]))"
proof -
  from acquireLock_result[OF acq] have st1: "stored w1 lockedOp"
    and at1: "attributes lockedOp = (attributes reindexOp)\<lparr>locked := Some (lock_stamp (clock w) reindexOp)\<rparr>"
    and c1: "calls w1 = calls w"
    by simp_all
  have tr1: "tasks_get env (reindexTaskId (attributes lockedOp)) = Inr tr" using tr(1) at1 by simp
  have sw: "processNextStep_switch env lockedOp w1 = updateReindexStatus env lockedOp w1"
    using step at1 by (simp add: processNextStep_switch_def)
  show ?thesis
  proof (cases "tr_created tr < tr_total tr")
    case True
    from updateReindexStatus_failures[OF tr1 tr(2) True, of w1] obtain e where
      u: "updateReindexStatus env lockedOp w1 =
            (Inl e, w1\<lparr>calls := calls w1 @ [TasksGet (reindexTaskId (attributes lockedOp))]\<rparr>)"
      and ie: "instanceof_Error e"
      and ex: "\<forall>f fs. tr_failures tr = Some (f # fs) \<longrightarrow>
              e = Boom badData (''Reindexing failed with failures like: '' @ f)"
      by blast
    from processNextStep_failure[OF acq, of env e] u sw obtain op' w' where
      p: "processNextStep env reindexOp w = (Inr op', w')" "stored w' op'"
        "attributes op' = (attributes reindexOp)\<lparr>locked := None, status := failed,
               errorMessage := Some (errorMessage_of env e)\<rparr>"
      by auto
    have ne: "errorMessage_of env e \<noteq> []" using ie by (intro errorMessage_of_nonempty) simp
    have "\<exists>m. errorMessage (attributes op') = Some m \<and> sublist f m"
      if "tr_failures tr = Some (f # fs)" for f fs
    proof -
      from ex that have e: "e = Boom badData (''Reindexing failed with failures like: '' @ f)" by blast
      have "sublist (error_message e) (errorMessage_of env e)"
        using e by (intro sublist_stack) simp_all
      moreover have "sublist f (error_message e)"
        unfolding e by (rule sublist_failure_example)
      ultimately have "sublist f (errorMessage_of env e)" by (rule sublist_order.order_trans[rotated])
      then show ?thesis using p(3) by simp
    qed
    with p ne True step show ?thesis by (auto simp: has_errorMessage_def)
  next
    case False
    from updateReindexStatus_completed[OF st1 tr1 tr(2) False, of ] obtain r w2 where
      u: "updateReindexStatus env lockedOp w1 = (r, w2)"
      and c2: "calls w2 = calls w1 @ [TasksGet (reindexTaskId (attributes lockedOp)),
                                 DeleteTask (reindexTaskId (attributes lockedOp))]"
      and d: "delete_task env (reindexTaskId (attributes lockedOp)) = Inr ''deleted'' \<longrightarrow>
              (\<exists>op'. r = Inr op' \<and>
                 attributes op' = (attributes lockedOp)\<lparr>locked := Some (moment_format (clock w1)),
                     lastCompletedStep := reindexCompleted,
                     reindexTaskPercComplete := Some (Num 1)\<rparr>)"
      by blast
    show ?thesis
    proof (cases r)
      case (Inl e)
      with d have nd: "delete_task env (reindexTaskId (attributes reindexOp)) \<noteq> Inr ''deleted''"
        using at1 by auto
      from processNextStep_failure[OF acq, of env e w2] u sw Inl obtain op' w' where
        "processNextStep env reindexOp w = (Inr op', w')" "stored w' op'"
        "calls w' = calls w2 @ [IndicesPutSettings (indexName (attributes reindexOp)) False]"
        by auto
      with False nd c2 c1 at1 show ?thesis by auto
    next
      case (Inr op2)
      from processNextStep_success[OF acq, of env op2 w2] u sw Inr obtain op' w' where
        p: "processNextStep env reindexOp w = (Inr op', w')" "stored w' op'"
        "attributes op' = (attributes op2)\<lparr>locked := None\<rparr>" "calls w' = calls w2"
        by auto
      from processNextStep_switch_outcome[OF st1, of env] sw u Inr tr1 tr(2) step at1
      have "step_index (lastCompletedStep (attributes op2)) = 5"
        by (auto split: if_splits)
      then have s2: "lastCompletedStep (attributes op2) = reindexCompleted"
        by (cases "lastCompletedStep (attributes op2)") simp_all
      have "reindexTaskPercComplete (attributes op2) = Some (Num 1)"
        if "delete_task env (reindexTaskId (attributes reindexOp)) = Inr ''deleted''"
        using d that at1 Inr by auto
      with p s2 c2 c1 at1 False show ?thesis by auto
    qed
  qed
qed

subsection \<open>Switching the alias\<close>



lemma switchAlias_007_run:
  assumes st: "stored w so"
  shows "\<exists>r w'. switchAlias_007 env so w = (r, w') \<and>
           calls w' = calls w @
             [IndicesUpdateAliases
                [add (newIndexName (attributes so)) (indexName (attributes so)) [],
                 remove_index (indexName (attributes so))]]"
  using assms
  by (auto simp: switchAlias_007_def step_defs split: sum.splits)

subsection \<open>Leaving the ML upgrade mode\<close>

lemma decrementMlReindexes_free:
  assumes "\<not> ml_lock_held w"
  shows "decrementMlReindexes w =
           (Inr (), w\<lparr>mlDoc := \<lparr> mlReindexCount = mlReindexCount (mlDoc w) - 1, ml_locked = None \<rparr>\<rparr>)"
  using assms
  by (simp add: decrementMlReindexes_def runWhileMlLocked_def await_def resolve_def Let_def)

lemma unsetMlUpgradeMode_ml:
  assumes st: "stored w so" and ml: "isMlIndex env (indexName (attributes so))"
      and free: "\<not> ml_lock_held w"
  shows "\<exists>r w'. unsetMlUpgradeMode env so w = (r, w') \<and>
           mlReindexCount (mlDoc w') = mlReindexCount (mlDoc w) - 1 \<and>
           calls w' = calls w @ (if mlReindexCount (mlDoc w) - 1 = 0 then [MlSetUpgradeMode False] else []) \<and>
           (case r of
              Inl e \<Rightarrow> mlReindexCount (mlDoc w) - 1 = 0 \<and> ml_set_upgrade_mode env False \<noteq> Inr True
            | Inr op' \<Rightarrow> (mlReindexCount (mlDoc w) - 1 \<noteq> 0 \<or> ml_set_upgrade_mode env False = Inr True))"
proof -
  let ?w1 = "w\<lparr>mlDoc := \<lparr> mlReindexCount = mlReindexCount (mlDoc w) - 1, ml_locked = None \<rparr>\<rparr>"
  have free1: "\<not> ml_lock_held ?w1" by (simp add: ml_lock_held_def)
  have st1: "stored ?w1 so" using st by (simp add: stored_def)
  show ?thesis
  proof (cases "mlReindexCount (mlDoc w) - 1 = 0")
    case False
    then show ?thesis
      using ml free1 st
      by (auto simp: unsetMlUpgradeMode_def decrementMlReindexes_free[OF free] await_def
            runWhileMlLocked_def Let_def resolve_def updateReindexOp_def client_update_def
            stored_def split: sum.splits prod.splits)
  next
    case True
    then show ?thesis
      using ml free1 st
      by (auto simp: unsetMlUpgradeMode_def decrementMlReindexes_free[OF free] await_def
            runWhileMlLocked_def Let_def resolve_def throw_def callCluster_def
            updateReindexOp_def client_update_def
            stored_def split: sum.splits prod.splits)
  qed
qed

text \<open>
  C6. On an operation at \<^verbatim>\<open>aliasCreated\<close>: for an ML index (the counter's lock being
  free) the counter is decremented by one, and the request to the ML endpoint with
  \<^verbatim>\<open>enabled=false\<close> is among the requests of the call if and only if the counter is
  zero after the decrement; for another index no request is sent and the counter is
  untouched; and whenever the step returns, the status is \<^verbatim>\<open>completed\<close> and the
  marker \<^verbatim>\<open>mlUpgradeModeUnset\<close>.
\<close>

theorem processNextStep_unsets_ml_upgrade_mode:
  assumes acq: "acquireLock reindexOp w = (Inr lockedOp, w1)"
      and step: "lastCompletedStep (attributes reindexOp) = aliasCreated"
  shows "\<exists>op' w'. processNextStep env reindexOp w = (Inr op', w') \<and> stored w' op' \<and>
           (isMlIndex env (indexName (attributes reindexOp)) \<and> \<not> ml_lock_held w \<longrightarrow>
              mlReindexCount (mlDoc w') = mlReindexCount (mlDoc w) - 1 \<and>
              (MlSetUpgradeMode False \<in> set (drop (length (calls w)) (calls w'))
                 \<longleftrightarrow> mlReindexCount (mlDoc w') = 0) \<and>
              (mlReindexCount (mlDoc w') \<noteq> 0 \<or> ml_set_upgrade_mode env False = Inr True \<longrightarrow>
                 status (attributes op') = completed \<and>
                 lastCompletedStep (attributes op') = mlUpgradeModeUnset)) \<and>
           (\<not> isMlIndex env (indexName (attributes reindexOp)) \<longrightarrow>
              status (attributes op') = completed \<and>
              lastCompletedStep (attributes op') = mlUpgradeModeUnset \<and>
              calls w' = calls w \<and> mlDoc w' = mlDoc w) \<and>
           ((\<exists>stepped w2. processNextStep_switch env lockedOp w1 = (Inr stepped, w2)) \<longrightarrow>
              status (attributes op') = completed \<and>
              lastCompletedStep (attributes op') = mlUpgradeModeUnset)"
proof -
  from acquireLock_result[OF acq] have st1: "stored w1 lockedOp"
    and at1: "attributes lockedOp = (attributes reindexOp)\<lparr>locked := Some (lock_stamp (clock w) reindexOp)\<rparr>"
    and c1: "calls w1 = calls w" and m1: "mlDoc w1 = mlDoc w" and k1: "clock w1 = clock w"
    by simp_all
  have sw: "processNextStep_switch env lockedOp w1 = unsetMlUpgradeMode env lockedOp w1"
    using step at1 by (simp add: processNextStep_switch_def)
  have held: "ml_lock_held w1 = ml_lock_held w" unfolding ml_lock_held_def m1 k1 ..
  have idx: "indexName (attributes lockedOp) = indexName (attributes reindexOp)" using at1 by simp
  show ?thesis
  proof (cases "unsetMlUpgradeMode env lockedOp w1")
    case (Pair r w2)
    have ml_facts: "mlReindexCount (mlDoc w2) = mlReindexCount (mlDoc w) - 1 \<and>
           calls w2 = calls w @ (if mlReindexCount (mlDoc w) - 1 = 0 then [MlSetUpgradeMode False] else []) \<and>
           (case r of
              Inl e \<Rightarrow> mlReindexCount (mlDoc w) - 1 = 0 \<and> ml_set_upgrade_mode env False \<noteq> Inr True
            | Inr op' \<Rightarrow> (mlReindexCount (mlDoc w) - 1 \<noteq> 0 \<or> ml_set_upgrade_mode env False = Inr True))"
      if "isMlIndex env (indexName (attributes reindexOp))" "\<not> ml_lock_held w"
      using unsetMlUpgradeMode_ml[OF st1, of env, unfolded idx held m1 c1] that Pair by auto
    have nonml: "\<exists>op2. r = Inr op2 \<and> calls w2 = calls w \<and> mlDoc w2 = mlDoc w"
      if nm: "\<not> isMlIndex env (indexName (attributes reindexOp))"
    proof -
      from updateReindexOp_outcome[OF st1,
          of "\<lambda>a. a\<lparr>lastCompletedStep := mlUpgradeModeUnset, status := completed\<rparr>"]
      show ?thesis using nm Pair idx c1 m1 by (auto simp: unsetMlUpgradeMode_def)
    qed
    show ?thesis
    proof (cases r)
      case (Inl e)
      from processNextStep_failure[OF acq, of env e w2] Pair sw Inl obtain op' w' where
        p: "processNextStep env reindexOp w = (Inr op', w')" "stored w' op'"
        "calls w' = calls w2 @ [IndicesPutSettings (indexName (attributes reindexOp)) False]"
        "mlDoc w' = mlDoc w2"
        by auto
      have notnon: "isMlIndex env (indexName (attributes reindexOp))"
        using nonml Inl by auto
      show ?thesis using p Pair sw Inl notnon ml_facts by auto
    next
      case (Inr op2)
      from processNextStep_success[OF acq, of env op2 w2] Pair sw Inr obtain op' w' where
        p: "processNextStep env reindexOp w = (Inr op', w')" "stored w' op'"
        "attributes op' = (attributes op2)\<lparr>locked := None\<rparr>" "calls w' = calls w2"
        "mlDoc w' = mlDoc w2"
        by auto
      from unsetMlUpgradeMode_outcome[OF st1, of env] Pair Inr
      have at2: "status (attributes op2) = completed"
        "lastCompletedStep (attributes op2) = mlUpgradeModeUnset" by simp_all
      show ?thesis using p at2 ml_facts nonml Inr by auto
    qed
  qed
qed

subsection \<open>Creating an operation\<close>

lemma store_get_member: "x \<in> set xs \<Longrightarrow> store_get xs (so_id x) \<noteq> None"
  by (induction xs) (auto simp: store_get_def)

lemma client_create_result:
  "client_create attrs w = (Inr so, w') \<Longrightarrow>
     attributes so = attrs \<and> store w' = store w @ [so] \<and> calls w' = calls w"
  by (auto simp: client_create_def Let_def)

lemma getNewIndexName_loop_store:
  "getNewIndexName_loop env idx att is w = (r, w') \<Longrightarrow> store w' = store w \<and> next_id w' = next_id w"
proof (induction "is" arbitrary: w)
  case Nil
  then show ?case by (simp add: throw_def)
next
  case (Cons i rest)
  then show ?case
    by (auto simp: await_def callCluster_def resolve_def split: sum.splits if_splits)
qed

lemma createReindexOp_result:
  assumes "createReindexOp env idx w = (Inr so, w')"
  shows "store w' = store w @ [so] \<and> indexName (attributes so) = idx \<and>
         status (attributes so) = inProgress \<and> lastCompletedStep (attributes so) = created \<and>
         locked (attributes so) = None \<and> reindexTaskId (attributes so) = None \<and>
         reindexTaskPercComplete (attributes so) = None \<and> errorMessage (attributes so) = None"
proof -
  from assms obtain nm w1 where g: "getNewIndexName env idx 100 w = (Inr nm, w1)"
    and c: "client_create \<lparr> indexName = idx, newIndexName = nm, status = inProgress,
                       lastCompletedStep = created, locked = None, reindexTaskId = None,
                       reindexTaskPercComplete = None, errorMessage = None \<rparr> w1 = (Inr so, w')"
    by (auto simp: createReindexOp_def await_def split: sum.splits prod.splits)
  from g have "store w1 = store w"
    unfolding getNewIndexName_def by (auto dest: getNewIndexName_loop_store)
  with client_create_result[OF c] show ?thesis by simp
qed

lemma createReindexOp_error:
  assumes "createReindexOp env idx w = (Inl e, w')"
  shows "store w' = store w"
proof -
  from assms have "\<exists>w1. getNewIndexName env idx 100 w = (Inl e, w1) \<and> w' = w1"
    by (auto simp: createReindexOp_def await_def client_create_def Let_def
          split: sum.splits prod.splits)
  then show ?thesis
    unfolding getNewIndexName_def by (auto dest: getNewIndexName_loop_store)
qed

text \<open>
  What \<open>createReindexOperation\<close> does with the operations found for the index: it looks
  at the status of the first one only.
\<close>

lemma createReindexOperation_found:
  assumes ex: "indices_exists env idx = Inr True"
      and f: "fst (findReindexOperations idx w) = Inr (existingOp # rest)"
  shows "status (attributes existingOp) = failed \<Longrightarrow>
           createReindexOperation env idx w =
              createReindexOp env idx
                (w\<lparr>calls := calls w @ [IndicesExists idx],
                   store := filter (\<lambda>x. so_id x \<noteq> so_id existingOp) (store w)\<rparr>)"
    and "status (attributes existingOp) \<noteq> failed \<Longrightarrow>
           createReindexOperation env idx w =
              (Inl (Boom badImplementation (''A reindex operation already in-progress for '' @ idx)),
               w\<lparr>calls := calls w @ [IndicesExists idx]\<rparr>)"
proof -
  from f have fl: "filter (\<lambda>so. indexName (attributes so) = idx) (store w) = existingOp # rest"
    by (simp add: findReindexOperations_def client_find_indexName_def)
  then have "existingOp \<in> set (filter (\<lambda>so. indexName (attributes so) = idx) (store w))" by simp
  then have "existingOp \<in> set (store w)" by simp
  from store_get_member[OF this] obtain cur where g: "store_get (store w) (so_id existingOp) = Some cur"
    by blast
  show "status (attributes existingOp) = failed \<Longrightarrow>
           createReindexOperation env idx w =
              createReindexOp env idx
                (w\<lparr>calls := calls w @ [IndicesExists idx],
                   store := filter (\<lambda>x. so_id x \<noteq> so_id existingOp) (store w)\<rparr>)"
    using ex fl g
    by (simp add: createReindexOperation_def await_def callCluster_def findReindexOperations_def
          client_find_indexName_def deleteReindexOp_def client_delete_def)
  show "status (attributes existingOp) \<noteq> failed \<Longrightarrow>
           createReindexOperation env idx w =
              (Inl (Boom badImplementation (''A reindex operation already in-progress for '' @ idx)),
               w\<lparr>calls := calls w @ [IndicesExists idx]\<rparr>)"
    using ex fl
    by (simp add: createReindexOperation_def await_def callCluster_def findReindexOperations_def
          client_find_indexName_def throw_def)
qed

text \<open>
  C2, as amended. \<open>createReindexOperation\<close> throws \<^verbatim>\<open>notFound\<close> when the index does
  not exist, having sent only the existence request and written nothing. When the index
  exists and exactly one operation is recorded for it: if that operation has status
  \<^verbatim>\<open>failed\<close>, it is deleted and the call is the creation of a new operation on the
  remaining store, so that an operation which is returned is new, \<^verbatim>\<open>inProgress\<close>, at
  step \<^verbatim>\<open>created\<close> and stored in the place of the deleted one, and a creation which
  fails leaves the store without the deleted operation; if that operation has any other
  status, the call throws \<^verbatim>\<open>Boom.badImplementation\<close> (an internal error, not a
  conflict) and neither deletes nor creates.
\<close>

theorem createReindexOperation_outcomes:
  "(indices_exists env idx = Inr False \<longrightarrow>
      createReindexOperation env idx w =
        (Inl (Boom notFound (''Index '' @ idx @ '' does not exist in this cluster.'')),
         w\<lparr>calls := calls w @ [IndicesExists idx]\<rparr>)) \<and>
   (indices_exists env idx = Inr True \<longrightarrow>
      (\<forall>existingOp. fst (findReindexOperations idx w) = Inr [existingOp] \<longrightarrow>
         (status (attributes existingOp) = failed \<longrightarrow>
            createReindexOperation env idx w =
              createReindexOp env idx
                (w\<lparr>calls := calls w @ [IndicesExists idx],
                   store := filter (\<lambda>x. so_id x \<noteq> so_id existingOp) (store w)\<rparr>) \<and>
            (\<forall>so w'. createReindexOperation env idx w = (Inr so, w') \<longrightarrow>
               store w' = filter (\<lambda>x. so_id x \<noteq> so_id existingOp) (store w) @ [so] \<and>
               indexName (attributes so) = idx \<and> status (attributes so) = inProgress \<and>
               lastCompletedStep (attributes so) = created \<and> errorMessage (attributes so) = None) \<and>
            (\<forall>e w'. createReindexOperation env idx w = (Inl e, w') \<longrightarrow>
               store w' = filter (\<lambda>x. so_id x \<noteq> so_id existingOp) (store w))) \<and>
         (status (attributes existingOp) \<noteq> failed \<longrightarrow>
            createReindexOperation env idx w =
              (Inl (Boom badImplementation (''A reindex operation already in-progress for '' @ idx)),
               w\<lparr>calls := calls w @ [IndicesExists idx]\<rparr>))))"
proof -
  have A: "indices_exists env idx = Inr False \<longrightarrow>
      createReindexOperation env idx w =
        (Inl (Boom notFound (''Index '' @ idx @ '' does not exist in this cluster.'')),
         w\<lparr>calls := calls w @ [IndicesExists idx]\<rparr>)"
    by (simp add: createReindexOperation_def await_def callCluster_def throw_def)
  have B: "createReindexOperation env idx w =
              createReindexOp env idx
                (w\<lparr>calls := calls w @ [IndicesExists idx],
                   store := filter (\<lambda>x. so_id x \<noteq> so_id existingOp) (store w)\<rparr>) \<and>
            (\<forall>so w'. createReindexOperation env idx w = (Inr so, w') \<longrightarrow>
               store w' = filter (\<lambda>x. so_id x \<noteq> so_id existingOp) (store w) @ [so] \<and>
               indexName (attributes so) = idx \<and> status (attributes so) = inProgress \<and>
               lastCompletedStep (attributes so) = created \<and> errorMessage (attributes so) = None) \<and>
            (\<forall>e w'. createReindexOperation env idx w = (Inl e, w') \<longrightarrow>
               store w' = filter (\<lambda>x. so_id x \<noteq> so_id existingOp) (store w))"
    if ex: "indices_exists env idx = Inr True"
      and f: "fst (findReindexOperations idx w) = Inr [existingOp]"
      and s: "status (attributes existingOp) = failed" for existingOp
  proof -
    note eq = createReindexOperation_found(1)[OF ex f s]
    have r: "store w' = filter (\<lambda>x. so_id x \<noteq> so_id existingOp) (store w) @ [so] \<and>
               indexName (attributes so) = idx \<and> status (attributes so) = inProgress \<and>
               lastCompletedStep (attributes so) = created \<and> errorMessage (attributes so) = None"
      if "createReindexOperation env idx w = (Inr so, w')" for so w'
    proof -
      from that eq have "createReindexOp env idx
                (w\<lparr>calls := calls w @ [IndicesExists idx],
                   store := filter (\<lambda>x. so_id x \<noteq> so_id existingOp) (store w)\<rparr>) = (Inr so, w')"
        by simp
      from createReindexOp_result[OF this] show ?thesis by simp
    qed
    have l: "store w' = filter (\<lambda>x. so_id x \<noteq> so_id existingOp) (store w)"
      if "createReindexOperation env idx w = (Inl e, w')" for e w'
    proof -
      from that eq have "createReindexOp env idx
                (w\<lparr>calls := calls w @ [IndicesExists idx],
                   store := filter (\<lambda>x. so_id x \<noteq> so_id existingOp) (store w)\<rparr>) = (Inl e, w')"
        by simp
      from createReindexOp_error[OF this] show ?thesis by simp
    qed
    from eq r l show ?thesis by blast
  qed
  have C: "createReindexOperation env idx w =
              (Inl (Boom badImplementation (''A reindex operation already in-progress for '' @ idx)),
               w\<lparr>calls := calls w @ [IndicesExists idx]\<rparr>)"
    if ex: "indices_exists env idx = Inr True"
      and f: "fst (findReindexOperations idx w) = Inr [existingOp]"
      and s: "status (attributes existingOp) \<noteq> failed" for existingOp
    by (rule createReindexOperation_found(2)[OF ex f s])
  show ?thesis using A B C by blast
qed

subsection \<open>The name of the new index\<close>

lemma getNewIndexName_loop_found:
  "a \<le> n \<Longrightarrow> n < b \<Longrightarrow> indices_exists env (reindex_name idx n) = Inr False \<Longrightarrow>
   (\<forall>m. a \<le> m \<and> m < n \<longrightarrow> indices_exists env (reindex_name idx m) = Inr True) \<Longrightarrow>
   fst (getNewIndexName_loop env idx att [a..<b] w) = Inr (reindex_name idx n)"
proof (induction "n - a" arbitrary: a w)
  case 0
  then have "a = n" by simp
  with 0 show ?case
    by (simp add: upt_conv_Cons await_def callCluster_def resolve_def)
next
  case (Suc k)
  then have lt: "a < n" and ab: "a < b" by simp_all
  have ex: "indices_exists env (reindex_name idx a) = Inr True"
    using Suc.prems lt by simp
  have "fst (getNewIndexName_loop env idx att [Suc a..<b] w') = Inr (reindex_name idx n)" for w'
    using Suc.hyps Suc.prems lt by (intro Suc.hyps(1)) auto
  then show ?case
    using ab ex by (simp add: upt_conv_Cons await_def callCluster_def)
qed

lemma getNewIndexName_loop_exhausted:
  "(\<forall>m. a \<le> m \<and> m < b \<longrightarrow> indices_exists env (reindex_name idx m) = Inr True) \<Longrightarrow>
   fst (getNewIndexName_loop env idx att [a..<b] w) =
     Inl (Error (''Could not generate an indexName that does not already exist after ''
                   @ show_nat att @ '' attempts.''))"
proof (induction "b - a" arbitrary: a w)
  case 0
  then show ?case by (simp add: throw_def)
next
  case (Suc k)
  then have ab: "a < b" by simp
  have ex: "indices_exists env (reindex_name idx a) = Inr True"
    using Suc.prems ab by simp
  have "fst (getNewIndexName_loop env idx att [Suc a..<b] w') =
     Inl (Error (''Could not generate an indexName that does not already exist after ''
                   @ show_nat att @ '' attempts.''))" for w'
    using Suc.hyps Suc.prems by (intro Suc.hyps(1)) auto
  then show ?case
    using ab ex by (simp add: upt_conv_Cons await_def callCluster_def)
qed

lemma getNewIndexName_loop_returns:
  "fst (getNewIndexName_loop env idx att [a..<b] w) = Inr nm \<Longrightarrow>
   \<exists>n. a \<le> n \<and> n < b \<and> nm = reindex_name idx n \<and>
       indices_exists env (reindex_name idx n) = Inr False \<and>
       (\<forall>m. a \<le> m \<and> m < n \<longrightarrow> indices_exists env (reindex_name idx m) = Inr True)"
proof (induction "b - a" arbitrary: a w)
  case 0
  then show ?case by (simp add: throw_def)
next
  case (Suc k)
  then have ab: "a < b" by simp
  show ?case
  proof (cases "indices_exists env (reindex_name idx a)")
    case (Inl e)
    with Suc.prems ab show ?thesis
      by (simp add: upt_conv_Cons await_def callCluster_def)
  next
    case (Inr ex)
    show ?thesis
    proof (cases ex)
      case False
      with Inr Suc.prems ab have "nm = reindex_name idx a"
        by (simp add: upt_conv_Cons await_def callCluster_def resolve_def)
      with Inr False ab show ?thesis by (intro exI[of _ a]) auto
    next
      case True
      with Inr Suc.prems ab
      have "fst (getNewIndexName_loop env idx att [Suc a..<b] (w\<lparr>calls := calls w @ [IndicesExists (reindex_name idx a)]\<rparr>)) = Inr nm"
        by (simp add: upt_conv_Cons await_def callCluster_def)
      moreover have "k = b - Suc a" using Suc.hyps(2) by simp
      ultimately obtain n where n: "Suc a \<le> n" "n < b" "nm = reindex_name idx n"
          "indices_exists env (reindex_name idx n) = Inr False"
          "\<forall>m. Suc a \<le> m \<and> m < n \<longrightarrow> indices_exists env (reindex_name idx m) = Inr True"
        using Suc.hyps(1) by blast
      have "\<forall>m. a \<le> m \<and> m < n \<longrightarrow> indices_exists env (reindex_name idx m) = Inr True"
      proof (intro allI impI)
        fix m assume "a \<le> m \<and> m < n"
        then consider "m = a" | "Suc a \<le> m \<and> m < n" by linarith
        then show "indices_exists env (reindex_name idx m) = Inr True"
          using Inr True n(5) by cases auto
      qed
      with n show ?thesis by (intro exI[of _ n]) auto
    qed
  qed
qed

lemma show_nat_100: "show_nat 100 = ''100''"
  by (simp add: show_nat.simps digit_char_def)

lemma show_nat_digit: "n < 10 \<Longrightarrow> show_nat n = [digit_char n]"
  by (simp add: show_nat.simps)

text \<open>
  C8. At creation the new index is named \<^verbatim>\<open>{indexName}-reindex-{n}\<close> for the smallest
  \<open>n\<close> from 0 whose name the cluster reports as not existing: when the names below \<open>n\<close>
  exist and that of \<open>n < 100\<close> does not, \<open>getNewIndexName\<close> returns the name of \<open>n\<close>;
  whatever name it returns is of that kind; when all of the names 0 to 99 exist it throws
  an error instead of returning a name; the operation that \<open>createReindexOp\<close>
  creates carries the name \<open>getNewIndexName\<close> returned, and the creation fails with the
  error of \<open>getNewIndexName\<close> when that throws.
\<close>

theorem getNewIndexName_smallest_free_or_fails:
  "(\<forall>n<100. indices_exists env (reindex_name idx n) = Inr False \<and>
            (\<forall>m<n. indices_exists env (reindex_name idx m) = Inr True) \<longrightarrow>
       fst (getNewIndexName env idx 100 w) = Inr (reindex_name idx n)) \<and>
   ((\<forall>m<100. indices_exists env (reindex_name idx m) = Inr True) \<longrightarrow>
       fst (getNewIndexName env idx 100 w) =
         Inl (Error ''Could not generate an indexName that does not already exist after 100 attempts.'')) \<and>
   (\<forall>nm. fst (getNewIndexName env idx 100 w) = Inr nm \<longrightarrow>
       (\<exists>n<100. nm = reindex_name idx n \<and> indices_exists env (reindex_name idx n) = Inr False \<and>
          (\<forall>m<n. indices_exists env (reindex_name idx m) = Inr True))) \<and>
   (\<forall>so w'. createReindexOp env idx w = (Inr so, w') \<longrightarrow>
       fst (getNewIndexName env idx 100 w) = Inr (newIndexName (attributes so))) \<and>
   (\<forall>e. fst (getNewIndexName env idx 100 w) = Inl e \<longrightarrow>
       fst (createReindexOp env idx w) = Inl e)"
proof (intro conjI allI impI)
  fix n assume "n < 100"
    and "indices_exists env (reindex_name idx n) = Inr False \<and>
            (\<forall>m<n. indices_exists env (reindex_name idx m) = Inr True)"
  then show "fst (getNewIndexName env idx 100 w) = Inr (reindex_name idx n)"
    unfolding getNewIndexName_def by (intro getNewIndexName_loop_found) auto
next
  assume "\<forall>m<100. indices_exists env (reindex_name idx m) = Inr True"
  then have "fst (getNewIndexName_loop env idx 100 [0..<100] w) =
     Inl (Error (''Could not generate an indexName that does not already exist after ''
                   @ show_nat 100 @ '' attempts.''))"
    by (intro getNewIndexName_loop_exhausted) auto
  then show "fst (getNewIndexName env idx 100 w) =
         Inl (Error ''Could not generate an indexName that does not already exist after 100 attempts.'')"
    by (simp add: getNewIndexName_def show_nat_100)
next
  fix nm assume "fst (getNewIndexName env idx 100 w) = Inr nm"
  then show "\<exists>n<100. nm = reindex_name idx n \<and> indices_exists env (reindex_name idx n) = Inr False \<and>
          (\<forall>m<n. indices_exists env (reindex_name idx m) = Inr True)"
    using getNewIndexName_loop_returns[of env idx 100 0 100 w nm]
    unfolding getNewIndexName_def by auto
next
  fix so w' assume "createReindexOp env idx w = (Inr so, w')"
  then show "fst (getNewIndexName env idx 100 w) = Inr (newIndexName (attributes so))"
    by (auto simp: createReindexOp_def await_def client_create_def Let_def
             split: prod.splits sum.splits)
next
  fix e assume "fst (getNewIndexName env idx 100 w) = Inl e"
  then show "fst (createReindexOp env idx w) = Inl e"
    by (auto simp: createReindexOp_def await_def split: prod.splits sum.splits)
qed

theorem getNewIndexName_smallest_free_or_fails_witness:
  "indices_exists mock_env (reindex_name ''myIndex'' 1) = Inr False \<and>
   indices_exists mock_env (reindex_name ''myIndex'' 0) = Inr True \<and>
   fst (getNewIndexName mock_env ''myIndex'' 100 mock_world) = Inr ''myIndex-reindex-1'' \<and>
   list_all (\<lambda>m. indices_exists (mock_env\<lparr>indices_exists := (\<lambda>n. Inr True)\<rparr>)
                     (reindex_name ''myIndex'' m) = Inr True) [0..<100] \<and>
   fst (getNewIndexName (mock_env\<lparr>indices_exists := (\<lambda>n. Inr True)\<rparr>) ''myIndex'' 100 mock_world) =
     Inl (Error ''Could not generate an indexName that does not already exist after 100 attempts.'')"
proof -
  have r1: "reindex_name ''myIndex'' 1 = ''myIndex-reindex-1''"
    by (simp add: reindex_name_def show_nat_digit digit_char_def)
  have r0: "reindex_name ''myIndex'' 0 = ''myIndex-reindex-0''"
    by (simp add: reindex_name_def show_nat_digit digit_char_def)
  have h1: "indices_exists mock_env (reindex_name ''myIndex'' 1) = Inr False"
    unfolding r1 by (simp add: mock_env_def)
  have h0: "indices_exists mock_env (reindex_name ''myIndex'' 0) = Inr True"
    unfolding r0 by (simp add: mock_env_def)
  have h2: "\<forall>m<1. indices_exists mock_env (reindex_name ''myIndex'' m) = Inr True"
    using h0 by simp
  have h3: "\<forall>m<100. indices_exists (mock_env\<lparr>indices_exists := (\<lambda>n. Inr True)\<rparr>)
              (reindex_name ''myIndex'' m) = Inr True"
    by simp
  have h3': "list_all (\<lambda>m. indices_exists (mock_env\<lparr>indices_exists := (\<lambda>n. Inr True)\<rparr>)
                     (reindex_name ''myIndex'' m) = Inr True) [0..<100]"
    by (simp add: list_all_iff)
  note t = getNewIndexName_smallest_free_or_fails
  from t[of mock_env "''myIndex''" mock_world, THEN conjunct1, rule_format, of 1] h1 h2
  have c1: "fst (getNewIndexName mock_env ''myIndex'' 100 mock_world) = Inr ''myIndex-reindex-1''"
    unfolding r1 by simp
  from t[of "mock_env\<lparr>indices_exists := (\<lambda>n. Inr True)\<rparr>" "''myIndex''" mock_world,
         THEN conjunct2, THEN conjunct1] h3
  have c2: "fst (getNewIndexName (mock_env\<lparr>indices_exists := (\<lambda>n. Inr True)\<rparr>) ''myIndex'' 100 mock_world) =
     Inl (Error ''Could not generate an indexName that does not already exist after 100 attempts.'')"
    by blast
  show ?thesis using h1 h0 h3' c1 c2 by blast
qed

subsection \<open>The worker is a singleton\<close>

lemma construct_all_after_first:
  "workerSingleton p \<noteq> None \<Longrightarrow>
   construct_all args p =
     (map (\<lambda>a. Inl (Error ''More than one ReindexWorker cannot be created.'')) args, p)"
  by (induction args) (auto simp: ReindexWorker_constructor_def)

text \<open>
  C9. Once a \<^verbatim>\<open>ReindexWorker\<close> has been constructed, the static field holds it, and
  every further call of the constructor, with any arguments and any number of times,
  throws and leaves the process state, and so the singleton, as it was.
\<close>

theorem ReindexWorker_second_construction_throws:
  assumes "ReindexWorker_constructor c u l p = (Inr wk, p')"
  shows "workerSingleton p' = Some wk \<and>
         ReindexWorker_constructor c' u' l' p' =
           (Inl (Error ''More than one ReindexWorker cannot be created.''), p') \<and>
         construct_all args p' =
           (map (\<lambda>a. Inl (Error ''More than one ReindexWorker cannot be created.'')) args, p')"
proof -
  from assms have s: "workerSingleton p' = Some wk"
    by (auto simp: ReindexWorker_constructor_def Let_def split: if_splits)
  then have "workerSingleton p' \<noteq> None" by simp
  then show ?thesis
    using s by (simp add: construct_all_after_first ReindexWorker_constructor_def)
qed

theorem ReindexWorker_second_construction_throws_witness:
  "\<exists>wk p'. ReindexWorker_constructor 1 2 3 \<lparr>workerSingleton = None\<rparr> = (Inr wk, p') \<and>
     workerSingleton p' = Some wk \<and>
     ReindexWorker_constructor 4 5 6 p' =
       (Inl (Error ''More than one ReindexWorker cannot be created.''), p') \<and>
     construct_all [(4, 5, 6), (7, 8, 9)] p' =
       ([Inl (Error ''More than one ReindexWorker cannot be created.''),
         Inl (Error ''More than one ReindexWorker cannot be created.'')], p')"
proof -
  obtain wk p' where h: "ReindexWorker_constructor 1 2 3 \<lparr>workerSingleton = None\<rparr> = (Inr wk, p')"
    by (simp add: ReindexWorker_constructor_def Let_def)
  from ReindexWorker_second_construction_throws[OF h, of 4 5 6 "[(4, 5, 6), (7, 8, 9)]"] h
  show ?thesis by auto
qed

section \<open>The properties on the operations of the test\<close>

lemma acquire_world_with:
  assumes "locked (attributes so) = None"
  shows "acquireLock so (world_with so) =
    (Inr \<lparr> so_id = so_id so, so_version = so_version so + 1,
           attributes = (attributes so)\<lparr>locked := Some 1000000\<rparr> \<rparr>,
     (world_with so)\<lparr>store := [\<lparr> so_id = so_id so, so_version = so_version so + 1,
           attributes = (attributes so)\<lparr>locked := Some 1000000\<rparr> \<rparr>]\<rparr>)"
proof -
  have nh: "\<not> lock_held (clock (world_with so)) so" using assms by (simp add: lock_held_def)
  have ls: "lock_stamp (clock (world_with so)) so = 1000000"
    using assms by (simp add: lock_stamp_def world_with_def moment_format_def)
  show ?thesis
    using acquireLock_free[OF stored_world_with nh, unfolded ls]
    by (simp add: world_with_def store_put_def)
qed

theorem processNextStep_incomplete_task_only_moves_percentage_witness:
  "stored (world_with (at_step reindexStarted)) (at_step reindexStarted) \<and>
   \<not> lock_held (clock (world_with (at_step reindexStarted))) (at_step reindexStarted) \<and>
   lastCompletedStep (attributes (at_step reindexStarted)) = reindexStarted \<and>
   tasks_get mock_env (reindexTaskId (attributes (at_step reindexStarted))) =
     Inr \<lparr> tr_completed = False, tr_created = 10, tr_total = 100, tr_failures = None \<rparr> \<and>
   (\<exists>op' w'. processNextStep mock_env (at_step reindexStarted) (world_with (at_step reindexStarted))
                = (Inr op', w') \<and>
      lastCompletedStep (attributes op') = reindexStarted \<and>
      status (attributes op') = inProgress \<and>
      reindexTaskPercComplete (attributes op') = Some (Num (1 / 10)))"
proof -
  let ?op = "at_step reindexStarted"
  let ?tr = "\<lparr> tr_completed = False, tr_created = 10, tr_total = 100, tr_failures = None \<rparr>"
  have h1: "stored (world_with ?op) ?op" by (rule stored_world_with)
  have h2: "\<not> lock_held (clock (world_with ?op)) ?op"
    by (simp add: lock_held_def at_step_def mock_op_def)
  have h3: "lastCompletedStep (attributes ?op) = reindexStarted" by (simp add: at_step_def)
  have h4: "tasks_get mock_env (reindexTaskId (attributes ?op)) = Inr ?tr"
    by (simp add: mock_env_def)
  have h5: "\<not> tr_completed ?tr" by simp
  from processNextStep_incomplete_task_only_moves_percentage[OF h1 h2 h3 h4 h5]
  obtain op' w' where "processNextStep mock_env ?op (world_with ?op) = (Inr op', w')"
    "lastCompletedStep (attributes op') = reindexStarted"
    "status (attributes op') = status (attributes ?op)"
    "attributes op' = (attributes ?op)\<lparr>locked := None,
               reindexTaskPercComplete := Some (js_div (tr_created ?tr) (tr_total ?tr))\<rparr>"
    by blast
  then have "\<exists>op' w'. processNextStep mock_env ?op (world_with ?op) = (Inr op', w') \<and>
      lastCompletedStep (attributes op') = reindexStarted \<and>
      status (attributes op') = inProgress \<and>
      reindexTaskPercComplete (attributes op') = Some (Num (1 / 10))"
    by (simp add: js_div_def at_step_def mock_op_def)
  with h1 h2 h3 h4 show ?thesis by blast
qed


theorem processNextStep_never_moves_backwards_witness:
  "\<exists>op' w'. processNextStep mock_env (at_step created) (world_with (at_step created)) = (Inr op', w') \<and>
     lastCompletedStep (attributes (at_step created)) = created \<and>
     lastCompletedStep (attributes op') = mlUpgradeModeSet"
proof -
  let ?op = "at_step created"
  have un: "locked (attributes ?op) = None" by (simp add: at_step_def mock_op_def)
  obtain lockedOp w1 where acq: "acquireLock ?op (world_with ?op) = (Inr lockedOp, w1)"
    using acquire_world_with[OF un] by blast
  from acquireLock_result[OF acq]
  have st1: "stored w1 lockedOp"
    and at1: "attributes lockedOp = (attributes ?op)\<lparr>locked := Some (lock_stamp (clock (world_with ?op)) ?op)\<rparr>"
    by simp_all
  have nml: "\<not> isMlIndex mock_env (indexName (attributes lockedOp))"
    using at1 by (simp add: mock_env_def at_step_def mock_op_def)
  have "processNextStep_switch mock_env lockedOp w1 =
          updateReindexOp lockedOp (\<lambda>a. a\<lparr>lastCompletedStep := mlUpgradeModeSet\<rparr>) w1"
    using at1 nml by (simp add: processNextStep_switch_def setMlUpgradeMode_def at_step_def)
  with updateReindexOp_outcome[OF st1, of "\<lambda>a. a\<lparr>lastCompletedStep := mlUpgradeModeSet\<rparr>"]
  obtain op2 w2 where sw: "processNextStep_switch mock_env lockedOp w1 = (Inr op2, w2)" by auto
  have steps: "lastCompletedStep (attributes ?op) = created" by (simp add: at_step_def)
  from processNextStep_never_moves_backwards[where reindexOp="?op" and w="world_with ?op" and env=mock_env] acq sw steps
  obtain op' w' where "processNextStep mock_env ?op (world_with ?op) = (Inr op', w')"
    "step_index (lastCompletedStep (attributes op')) = step_index created + 1"
    by auto
  moreover from this have "lastCompletedStep (attributes op') = mlUpgradeModeSet"
    by (cases "lastCompletedStep (attributes op')") simp_all
  ultimately show ?thesis using steps by blast
qed

theorem processNextStep_completed_task_witness:
  "(\<exists>lockedOp w1 op' w'.
      acquireLock (at_step reindexStarted) (world_with (at_step reindexStarted)) = (Inr lockedOp, w1) \<and>
      lastCompletedStep (attributes (at_step reindexStarted)) = reindexStarted \<and>
      tasks_get (mock_env\<lparr>tasks_get := (\<lambda>t. Inr \<lparr> tr_completed = True, tr_created = 95,
                    tr_total = 100, tr_failures = Some [failure_x] \<rparr>)\<rparr>)
          (reindexTaskId (attributes (at_step reindexStarted))) =
        Inr \<lparr> tr_completed = True, tr_created = 95, tr_total = 100, tr_failures = Some [failure_x] \<rparr> \<and>
      processNextStep (mock_env\<lparr>tasks_get := (\<lambda>t. Inr \<lparr> tr_completed = True, tr_created = 95,
                    tr_total = 100, tr_failures = Some [failure_x] \<rparr>)\<rparr>)
          (at_step reindexStarted) (world_with (at_step reindexStarted)) = (Inr op', w') \<and>
      lastCompletedStep (attributes op') = reindexStarted \<and>
      status (attributes op') = failed \<and>
      (\<exists>m. errorMessage (attributes op') = Some m \<and> sublist failure_x m)) \<and>
   (\<exists>lockedOp w1 op' w'.
      acquireLock (at_step reindexStarted) (world_with (at_step reindexStarted)) = (Inr lockedOp, w1) \<and>
      delete_task mock_env (reindexTaskId (attributes (at_step reindexStarted))) = Inr ''deleted'' \<and>
      processNextStep (mock_env\<lparr>tasks_get := (\<lambda>t. Inr \<lparr> tr_completed = True, tr_created = 100,
                    tr_total = 100, tr_failures = None \<rparr>)\<rparr>)
          (at_step reindexStarted) (world_with (at_step reindexStarted)) = (Inr op', w') \<and>
      lastCompletedStep (attributes op') = reindexCompleted \<and>
      reindexTaskPercComplete (attributes op') = Some (Num 1) \<and>
      calls w' = [TasksGet (Some ''xyz''), DeleteTask (Some ''xyz'')])"
proof -
  let ?op = "at_step reindexStarted"
  let ?tr1 = "\<lparr> tr_completed = True, tr_created = 95, tr_total = 100, tr_failures = Some [failure_x] \<rparr>"
  let ?tr2 = "\<lparr> tr_completed = True, tr_created = 100, tr_total = 100, tr_failures = None \<rparr>"
  let ?env1 = "mock_env\<lparr>tasks_get := (\<lambda>t. Inr ?tr1)\<rparr>"
  let ?env2 = "mock_env\<lparr>tasks_get := (\<lambda>t. Inr ?tr2)\<rparr>"
  have un: "locked (attributes ?op) = None" by (simp add: at_step_def mock_op_def)
  obtain lockedOp w1 where acq: "acquireLock ?op (world_with ?op) = (Inr lockedOp, w1)"
    using acquire_world_with[OF un] by blast
  have step: "lastCompletedStep (attributes ?op) = reindexStarted" by (simp add: at_step_def)
  have t1: "tasks_get ?env1 (reindexTaskId (attributes ?op)) = Inr ?tr1" by simp
  have t2: "tasks_get ?env2 (reindexTaskId (attributes ?op)) = Inr ?tr2" by simp
  have d: "delete_task mock_env (reindexTaskId (attributes ?op)) = Inr ''deleted''"
    by (simp add: mock_env_def)
  have d2: "delete_task ?env2 (reindexTaskId (attributes ?op)) = Inr ''deleted''"
    by (simp add: mock_env_def)
  from processNextStep_completed_task[OF acq step t1]
  have a: "\<exists>op' w'. processNextStep ?env1 ?op (world_with ?op) = (Inr op', w') \<and>
      lastCompletedStep (attributes op') = reindexStarted \<and>
      status (attributes op') = failed \<and>
      (\<exists>m. errorMessage (attributes op') = Some m \<and> sublist failure_x m)"
    by auto
  from processNextStep_completed_task[OF acq step t2] d2
  have b: "\<exists>op' w'. processNextStep ?env2 ?op (world_with ?op) = (Inr op', w') \<and>
      lastCompletedStep (attributes op') = reindexCompleted \<and>
      reindexTaskPercComplete (attributes op') = Some (Num 1) \<and>
      calls w' = [TasksGet (Some ''xyz''), DeleteTask (Some ''xyz'')]"
    by (auto simp: world_with_def at_step_def mock_op_def)
  from a b acq step t1 d show ?thesis by blast
qed


theorem processNextStep_unsets_ml_upgrade_mode_witness:
  "\<exists>lockedOp w1 op' w'.
      acquireLock (ml_op aliasCreated) (world_with (ml_op aliasCreated)) = (Inr lockedOp, w1) \<and>
      lastCompletedStep (attributes (ml_op aliasCreated)) = aliasCreated \<and>
      isMlIndex mock_env (indexName (attributes (ml_op aliasCreated))) \<and>
      \<not> ml_lock_held (world_with (ml_op aliasCreated)) \<and>
      mlReindexCount (mlDoc (world_with (ml_op aliasCreated))) = 1 \<and>
      ml_set_upgrade_mode mock_env False = Inr True \<and>
      processNextStep mock_env (ml_op aliasCreated) (world_with (ml_op aliasCreated)) = (Inr op', w') \<and>
      mlReindexCount (mlDoc w') = 0 \<and>
      MlSetUpgradeMode False \<in> set (calls w') \<and>
      status (attributes op') = completed \<and>
      lastCompletedStep (attributes op') = mlUpgradeModeUnset"
proof -
  let ?op = "ml_op aliasCreated"
  have un: "locked (attributes ?op) = None" by (simp add: ml_op_def mock_op_def)
  obtain lockedOp w1 where acq: "acquireLock ?op (world_with ?op) = (Inr lockedOp, w1)"
    using acquire_world_with[OF un] by blast
  have step: "lastCompletedStep (attributes ?op) = aliasCreated" by (simp add: ml_op_def)
  have ml: "isMlIndex mock_env (indexName (attributes ?op))"
    by (simp add: mock_env_def ml_op_def mock_op_def)
  have free: "\<not> ml_lock_held (world_with ?op)" by (simp add: ml_lock_held_def world_with_def)
  have cnt: "mlReindexCount (mlDoc (world_with ?op)) = 1" by (simp add: world_with_def)
  have ack: "ml_set_upgrade_mode mock_env False = Inr True" by (simp add: mock_env_def)
  have nocalls: "calls (world_with ?op) = []" by (simp add: world_with_def)
  from processNextStep_unsets_ml_upgrade_mode[OF acq step, of mock_env] ml free cnt ack nocalls
  obtain op' w' where "processNextStep mock_env ?op (world_with ?op) = (Inr op', w')"
    "mlReindexCount (mlDoc w') = 0" "MlSetUpgradeMode False \<in> set (calls w')"
    "status (attributes op') = completed" "lastCompletedStep (attributes op') = mlUpgradeModeUnset"
    by auto
  with acq step ml free cnt ack show ?thesis by blast
qed

lemma getNewIndexName_myIndex:
  "getNewIndexName mock_env ''myIndex'' 100 w =
     (Inr ''myIndex-reindex-1'',
      w\<lparr>calls := calls w @ [IndicesExists ''myIndex-reindex-0'', IndicesExists ''myIndex-reindex-1'']\<rparr>)"
proof -
  have u: "[0..<100] = 0 # 1 # [2..<100]" by (simp add: upt_conv_Cons)
  have r1: "reindex_name ''myIndex'' 1 = ''myIndex-reindex-1''"
    by (simp add: reindex_name_def show_nat_digit digit_char_def)
  have r0: "reindex_name ''myIndex'' 0 = ''myIndex-reindex-0''"
    by (simp add: reindex_name_def show_nat_digit digit_char_def)
  show ?thesis
    unfolding getNewIndexName_def u
    by (simp add: r0 r1 await_def callCluster_def resolve_def mock_env_def del: One_nat_def)
qed

theorem createReindexOperation_outcomes_witness:
  "indices_exists mock_env ''other'' = Inr False \<and>
   createReindexOperation mock_env ''other'' (world_with mock_op) =
     (Inl (Boom notFound ''Index other does not exist in this cluster.''),
      (world_with mock_op)\<lparr>calls := [IndicesExists ''other'']\<rparr>) \<and>
   indices_exists mock_env ''myIndex'' = Inr True \<and>
   fst (findReindexOperations ''myIndex'' (world_with failed_op)) = Inr [failed_op] \<and>
   status (attributes failed_op) = failed \<and>
   fst (createReindexOperation mock_env ''myIndex'' (world_with failed_op)) =
     Inr \<lparr> so_id = 2, so_version = 1,
           attributes = \<lparr> indexName = ''myIndex'', newIndexName = ''myIndex-reindex-1'',
                          status = inProgress, lastCompletedStep = created, locked = None,
                          reindexTaskId = None, reindexTaskPercComplete = None,
                          errorMessage = None \<rparr> \<rparr> \<and>
   store (snd (createReindexOperation mock_env ''myIndex'' (world_with failed_op))) =
     [\<lparr> so_id = 2, so_version = 1,
        attributes = \<lparr> indexName = ''myIndex'', newIndexName = ''myIndex-reindex-1'',
                          status = inProgress, lastCompletedStep = created, locked = None,
                          reindexTaskId = None, reindexTaskPercComplete = None,
                          errorMessage = None \<rparr> \<rparr>] \<and>
   fst (findReindexOperations ''myIndex'' (world_with mock_op)) = Inr [mock_op] \<and>
   status (attributes mock_op) \<noteq> failed \<and>
   createReindexOperation mock_env ''myIndex'' (world_with mock_op) =
     (Inl (Boom badImplementation ''A reindex operation already in-progress for myIndex''),
      (world_with mock_op)\<lparr>calls := [IndicesExists ''myIndex'']\<rparr>)"
proof -
  note t = createReindexOperation_outcomes
  have e0: "indices_exists mock_env ''other'' = Inr False" by (simp add: mock_env_def)
  have e1: "indices_exists mock_env ''myIndex'' = Inr True" by (simp add: mock_env_def)
  have f1: "fst (findReindexOperations ''myIndex'' (world_with failed_op)) = Inr [failed_op]"
    by (simp add: findReindexOperations_def client_find_indexName_def world_with_def failed_op_def
          mock_op_def)
  have s1: "status (attributes failed_op) = failed" by (simp add: failed_op_def)
  have f2: "fst (findReindexOperations ''myIndex'' (world_with mock_op)) = Inr [mock_op]"
    by (simp add: findReindexOperations_def client_find_indexName_def world_with_def mock_op_def)
  have s2: "status (attributes mock_op) \<noteq> failed" by (simp add: mock_op_def)
  from t[of mock_env "''other''" "world_with mock_op", THEN conjunct1] e0
  have a: "createReindexOperation mock_env ''other'' (world_with mock_op) =
     (Inl (Boom notFound ''Index other does not exist in this cluster.''),
      (world_with mock_op)\<lparr>calls := [IndicesExists ''other'']\<rparr>)"
    by (simp add: world_with_def)
  from t[of mock_env "''myIndex''" "world_with failed_op", THEN conjunct2, rule_format, OF e1 f1,
         THEN conjunct1, rule_format, OF s1, THEN conjunct1]
  have b: "createReindexOperation mock_env ''myIndex'' (world_with failed_op) =
     (Inr \<lparr> so_id = 2, so_version = 1,
           attributes = \<lparr> indexName = ''myIndex'', newIndexName = ''myIndex-reindex-1'',
                          status = inProgress, lastCompletedStep = created, locked = None,
                          reindexTaskId = None, reindexTaskPercComplete = None,
                          errorMessage = None \<rparr> \<rparr>,
      \<lparr> store = [\<lparr> so_id = 2, so_version = 1,
           attributes = \<lparr> indexName = ''myIndex'', newIndexName = ''myIndex-reindex-1'',
                          status = inProgress, lastCompletedStep = created, locked = None,
                          reindexTaskId = None, reindexTaskPercComplete = None,
                          errorMessage = None \<rparr> \<rparr>],
        mlDoc = \<lparr> mlReindexCount = 1, ml_locked = None \<rparr>,
        calls = [IndicesExists ''myIndex'', IndicesExists ''myIndex-reindex-0'',
                 IndicesExists ''myIndex-reindex-1''],
        clock = 1000000, next_id = 3 \<rparr>)"
    by (simp add: createReindexOp_def await_def getNewIndexName_myIndex client_create_def Let_def
          world_with_def failed_op_def mock_op_def)
  from t[of mock_env "''myIndex''" "world_with mock_op", THEN conjunct2, rule_format, OF e1 f2,
         THEN conjunct2, rule_format, OF s2]
  have c: "createReindexOperation mock_env ''myIndex'' (world_with mock_op) =
     (Inl (Boom badImplementation ''A reindex operation already in-progress for myIndex''),
      (world_with mock_op)\<lparr>calls := [IndicesExists ''myIndex'']\<rparr>)"
    by (simp add: world_with_def)
  show ?thesis using e0 a e1 f1 s1 b f2 s2 c by simp
qed

text \<open>
  C2, as stated, fails, at three inputs. With one operation in progress for
  \<^verbatim>\<open>myIndex\<close> the call throws \<^verbatim>\<open>Boom.badImplementation\<close>, not a conflict. With the
  failed operation and then one in progress in the store, an operation with another status
  than \<^verbatim>\<open>failed\<close> exists for the index, and yet the call deletes the failed one and
  creates a third. With the failed operation alone and every candidate name taken, the
  call deletes the failed operation, creates none and throws.
\<close>

theorem createReindexOperation_not_as_stated:
  "fst (findReindexOperations ''myIndex'' (world_with mock_op)) = Inr [mock_op] \<and>
   status (attributes mock_op) = inProgress \<and>
   fst (createReindexOperation mock_env ''myIndex'' (world_with mock_op)) =
     Inl (Boom badImplementation ''A reindex operation already in-progress for myIndex'') \<and>
   fst (createReindexOperation mock_env ''myIndex'' (world_with mock_op)) \<noteq>
     Inl (Boom conflict ''A reindex operation already in-progress for myIndex'') \<and>
   fst (findReindexOperations ''myIndex'' two_ops_world) = Inr [failed_op, in_progress_op] \<and>
   status (attributes in_progress_op) = inProgress \<and>
   fst (createReindexOperation mock_env ''myIndex'' two_ops_world) =
     Inr \<lparr> so_id = 3, so_version = 1,
           attributes = \<lparr> indexName = ''myIndex'', newIndexName = ''myIndex-reindex-1'',
                          status = inProgress, lastCompletedStep = created, locked = None,
                          reindexTaskId = None, reindexTaskPercComplete = None,
                          errorMessage = None \<rparr> \<rparr> \<and>
   store (snd (createReindexOperation mock_env ''myIndex'' two_ops_world)) =
     [in_progress_op,
      \<lparr> so_id = 3, so_version = 1,
        attributes = \<lparr> indexName = ''myIndex'', newIndexName = ''myIndex-reindex-1'',
                       status = inProgress, lastCompletedStep = created, locked = None,
                       reindexTaskId = None, reindexTaskPercComplete = None,
                       errorMessage = None \<rparr> \<rparr>] \<and>
   fst (findReindexOperations ''myIndex'' (world_with failed_op)) = Inr [failed_op] \<and>
   status (attributes failed_op) = failed \<and>
   indices_exists full_env ''myIndex'' = Inr True \<and>
   fst (createReindexOperation full_env ''myIndex'' (world_with failed_op)) =
     Inl (Error ''Could not generate an indexName that does not already exist after 100 attempts.'') \<and>
   store (snd (createReindexOperation full_env ''myIndex'' (world_with failed_op))) = []"
proof -
  have e1: "indices_exists mock_env ''myIndex'' = Inr True" by (simp add: mock_env_def)
  have f1: "fst (findReindexOperations ''myIndex'' (world_with mock_op)) = Inr [mock_op]"
    by (simp add: findReindexOperations_def client_find_indexName_def world_with_def mock_op_def)
  have s1: "status (attributes mock_op) = inProgress" by (simp add: mock_op_def)
  then have n1: "status (attributes mock_op) \<noteq> failed" by simp
  have a: "fst (createReindexOperation mock_env ''myIndex'' (world_with mock_op)) =
     Inl (Boom badImplementation ''A reindex operation already in-progress for myIndex'')"
    using createReindexOperation_found(2)[OF e1 f1 n1] by simp
  have f2: "fst (findReindexOperations ''myIndex'' two_ops_world) = Inr [failed_op, in_progress_op]"
    by (simp add: findReindexOperations_def client_find_indexName_def two_ops_world_def
          failed_op_def in_progress_op_def mock_op_def)
  have s2: "status (attributes in_progress_op) = inProgress"
    by (simp add: in_progress_op_def mock_op_def)
  have sf: "status (attributes failed_op) = failed" by (simp add: failed_op_def)
  have b: "createReindexOperation mock_env ''myIndex'' two_ops_world =
     (Inr \<lparr> so_id = 3, so_version = 1,
           attributes = \<lparr> indexName = ''myIndex'', newIndexName = ''myIndex-reindex-1'',
                          status = inProgress, lastCompletedStep = created, locked = None,
                          reindexTaskId = None, reindexTaskPercComplete = None,
                          errorMessage = None \<rparr> \<rparr>,
      \<lparr> store = [in_progress_op,
                 \<lparr> so_id = 3, so_version = 1,
                   attributes = \<lparr> indexName = ''myIndex'', newIndexName = ''myIndex-reindex-1'',
                          status = inProgress, lastCompletedStep = created, locked = None,
                          reindexTaskId = None, reindexTaskPercComplete = None,
                          errorMessage = None \<rparr> \<rparr>],
        mlDoc = \<lparr> mlReindexCount = 1, ml_locked = None \<rparr>,
        calls = [IndicesExists ''myIndex'', IndicesExists ''myIndex-reindex-0'',
                 IndicesExists ''myIndex-reindex-1''],
        clock = 1000000, next_id = 4 \<rparr>)"
    unfolding createReindexOperation_found(1)[OF e1 f2 sf]
    by (simp add: createReindexOp_def await_def getNewIndexName_myIndex client_create_def Let_def
          two_ops_world_def failed_op_def in_progress_op_def mock_op_def)
  have e3: "indices_exists full_env ''myIndex'' = Inr True" by (simp add: full_env_def)
  have f3: "fst (findReindexOperations ''myIndex'' (world_with failed_op)) = Inr [failed_op]"
    by (simp add: findReindexOperations_def client_find_indexName_def world_with_def failed_op_def
          mock_op_def)
  let ?w = "(world_with failed_op)\<lparr>calls := calls (world_with failed_op) @ [IndicesExists ''myIndex''],
               store := filter (\<lambda>x. so_id x \<noteq> so_id failed_op) (store (world_with failed_op))\<rparr>"
  have st: "store ?w = []" by (simp add: world_with_def)
  obtain r w1 where g: "getNewIndexName full_env ''myIndex'' 100 ?w = (r, w1)"
    by (cases "getNewIndexName full_env ''myIndex'' 100 ?w") blast
  have "fst (getNewIndexName_loop full_env ''myIndex'' 100 [0..<100] ?w) =
     Inl (Error (''Could not generate an indexName that does not already exist after ''
                   @ show_nat 100 @ '' attempts.''))"
    by (rule getNewIndexName_loop_exhausted) (simp add: full_env_def)
  with g have r: "r = Inl (Error ''Could not generate an indexName that does not already exist after 100 attempts.'')"
    by (simp add: getNewIndexName_def show_nat_100)
  from g have "store w1 = store ?w"
    unfolding getNewIndexName_def by (auto dest: getNewIndexName_loop_store)
  with st have s3: "store w1 = []" by simp
  have c: "createReindexOperation full_env ''myIndex'' (world_with failed_op) =
     (Inl (Error ''Could not generate an indexName that does not already exist after 100 attempts.''), w1)"
    unfolding createReindexOperation_found(1)[OF e3 f3 sf]
    using g r by (simp add: createReindexOp_def await_def)
  show ?thesis using f1 s1 a f2 s2 b f3 sf e3 c s3 by simp
qed


end
